theory Spec2Isabelle
  imports Main
begin

section \<open>Python values\<close>

text \<open>
  The handlers of \<^verbatim>\<open>src/index.py\<close> move documents between the request, the
  document store and the response.  A document is a Python \<^verbatim>\<open>dict\<close> with string
  keys; it is modelled as an association list that keeps the insertion order and holds
  every key once.  The values are the fragment of Python/BSON values the handlers
  touch: \<^verbatim>\<open>None\<close>, integers, strings, \<^verbatim>\<open>ObjectId\<close>s (by their
  hexadecimal text), lists and dicts.  Booleans and floats are left out, so that HOL
  equality of two hashable values is Python's \<^verbatim>\<open>==\<close>.  A string is a list of code
  points below 256.
\<close>

datatype pyval =
    PNone
  | PInt int
  | PStr string
  | PObjectId string
  | PList "pyval list"
  | PDict "(string \<times> pyval) list"

type_synonym pydict = "(string \<times> pyval) list"

datatype exn =
    HTTPException nat string
  | KeyError pyval
  | TypeError
  | AttributeError
  | InvalidId
  | CollaboratorError string

text \<open>Truth value of an object (\<^verbatim>\<open>not x\<close>, \<^verbatim>\<open>if x\<close>).\<close>

fun truthy :: "pyval \<Rightarrow> bool" where
  "truthy PNone = False"
| "truthy (PInt i) = (i \<noteq> 0)"
| "truthy (PStr s) = (s \<noteq> [])"
| "truthy (PObjectId h) = True"
| "truthy (PList xs) = (xs \<noteq> [])"
| "truthy (PDict kvs) = (kvs \<noteq> [])"

text \<open>Lists and dicts cannot be dictionary keys.\<close>

fun hashable :: "pyval \<Rightarrow> bool" where
  "hashable (PList xs) = False"
| "hashable (PDict kvs) = False"
| "hashable v = True"

subsection \<open>Dictionaries\<close>

text \<open>
  \<^verbatim>\<open>d[k] = v\<close> keeps the position of a key that is already there and appends a new
  key; \<^verbatim>\<open>d.update(e)\<close> stores the items of \<open>e\<close> one after the other;
  \<^verbatim>\<open>d.pop(k)\<close> and \<^verbatim>\<open>del d[k]\<close> raise \<^verbatim>\<open>KeyError\<close> on a missing key.
  The functions are polymorphic in the key: documents have string keys, the local
  lookup tables of the handlers are keyed by values.
\<close>

fun dict_set :: "('k \<times> 'v) list \<Rightarrow> 'k \<Rightarrow> 'v \<Rightarrow> ('k \<times> 'v) list" where
  "dict_set [] k v = [(k, v)]"
| "dict_set ((k', v') # d) k v =
     (if k' = k then (k, v) # d else (k', v') # dict_set d k v)"

fun dict_update :: "('k \<times> 'v) list \<Rightarrow> ('k \<times> 'v) list \<Rightarrow> ('k \<times> 'v) list" where
  "dict_update d [] = d"
| "dict_update d ((k, v) # e) = dict_update (dict_set d k v) e"

definition dict_del :: "('k \<times> 'v) list \<Rightarrow> 'k \<Rightarrow> ('k \<times> 'v) list" where
  "dict_del d k = filter (\<lambda>kv. fst kv \<noteq> k) d"

definition dict_keys :: "('k \<times> 'v) list \<Rightarrow> 'k list" where
  "dict_keys d = map fst d"

definition getitem :: "pydict \<Rightarrow> string \<Rightarrow> exn + pyval" where
  "getitem d k = (case map_of d k of None \<Rightarrow> Inl (KeyError (PStr k)) | Some v \<Rightarrow> Inr v)"

definition pop :: "pydict \<Rightarrow> string \<Rightarrow> exn + (pyval \<times> pydict)" where
  "pop d k = (case map_of d k of None \<Rightarrow> Inl (KeyError (PStr k))
              | Some v \<Rightarrow> Inr (v, dict_del d k))"

subsection \<open>Operations on values of unknown type\<close>

text \<open>
  What the store and the collaborators return is not typed in the source, so the
  subscript with a string, the iteration, \<^verbatim>\<open>.pop\<close>, \<^verbatim>\<open>.keys()\<close> and the
  \<^verbatim>\<open>**\<close> unpacking are defined on every value and raise where Python raises.
\<close>

fun py_getitem :: "pyval \<Rightarrow> string \<Rightarrow> exn + pyval" where
  "py_getitem (PDict d) k = getitem d k"
| "py_getitem v k = Inl TypeError"

fun py_iter :: "pyval \<Rightarrow> exn + pyval list" where
  "py_iter (PList xs) = Inr xs"
| "py_iter (PDict d) = Inr (map (\<lambda>kv. PStr (fst kv)) d)"
| "py_iter (PStr s) = Inr (map (\<lambda>c. PStr [c]) s)"
| "py_iter v = Inl TypeError"

fun py_pop :: "pyval \<Rightarrow> string \<Rightarrow> exn + (pyval \<times> pyval)" where
  "py_pop (PDict d) k =
     (case pop d k of Inl e \<Rightarrow> Inl e | Inr (v, d') \<Rightarrow> Inr (v, PDict d'))"
| "py_pop (PList xs) k = Inl TypeError"
| "py_pop v k = Inl AttributeError"

fun py_keys :: "pyval \<Rightarrow> exn + string list" where
  "py_keys (PDict d) = Inr (dict_keys d)"
| "py_keys v = Inl AttributeError"

fun py_mapping :: "pyval \<Rightarrow> exn + pydict" where
  "py_mapping (PDict d) = Inr d"
| "py_mapping v = Inl TypeError"

subsection \<open>\<^verbatim>\<open>str\<close> and f-strings\<close>

definition digit_char :: "nat \<Rightarrow> char" where
  "digit_char n = ''0123456789abcdef'' ! n"

fun show_nat :: "nat \<Rightarrow> string" where
  "show_nat n = (if n < 10 then [digit_char n] else show_nat (n div 10) @ [digit_char (n mod 10)])"

declare show_nat.simps [simp del]

definition show_int :: "int \<Rightarrow> string" where
  "show_int i = (if i < 0 then CHR ''-'' # show_nat (nat (- i)) else show_nat (nat i))"

text \<open>
  \<^verbatim>\<open>repr\<close> of a string: double quotes when the text has an apostrophe and no double
  quote, single quotes otherwise; the quote and the backslash are escaped, the control
  characters and the code points that are not printable are written \<^verbatim>\<open>\t\<close>,
  \<^verbatim>\<open>\n\<close>, \<^verbatim>\<open>\r\<close> or \<^verbatim>\<open>\xhh\<close>.
\<close>

definition printable :: "char \<Rightarrow> bool" where
  "printable c = (let n = (of_char c :: nat) in (32 \<le> n \<and> n < 127) \<or> (161 \<le> n \<and> n \<noteq> 173))"

definition escape_char :: "char \<Rightarrow> char \<Rightarrow> string" where
  "escape_char q c =
     (if c = q \<or> c = CHR 0x5C then [CHR 0x5C, c]
      else if c = CHR 0x09 then [CHR 0x5C, CHR ''t'']
      else if c = CHR 0x0A then [CHR 0x5C, CHR ''n'']
      else if c = CHR 0x0D then [CHR 0x5C, CHR ''r'']
      else if printable c then [c]
      else [CHR 0x5C, CHR ''x'', digit_char (of_char c div 16), digit_char (of_char c mod 16)])"

definition repr_str :: "string \<Rightarrow> string" where
  "repr_str s =
     (let q = (if CHR 0x27 \<in> set s \<and> CHR 0x22 \<notin> set s then CHR 0x22 else CHR 0x27)
      in q # concat (map (escape_char q) s) @ [q])"

fun join :: "string \<Rightarrow> string list \<Rightarrow> string" where
  "join sep [] = []"
| "join sep [x] = x"
| "join sep (x # y # ys) = x @ sep @ join sep (y # ys)"

fun py_repr :: "pyval \<Rightarrow> string" where
  "py_repr PNone = ''None''"
| "py_repr (PInt i) = show_int i"
| "py_repr (PStr s) = repr_str s"
| "py_repr (PObjectId h) = ''ObjectId('' @ repr_str h @ '')''"
| "py_repr (PList xs) = ''['' @ join '', '' (map py_repr xs) @ '']''"
| "py_repr (PDict d) =
     ''{'' @ join '', '' (map (\<lambda>kv. repr_str (fst kv) @ '': '' @ py_repr (snd kv)) d) @ ''}''"

fun py_str :: "pyval \<Rightarrow> string" where
  "py_str (PStr s) = s"
| "py_str (PObjectId h) = h"
| "py_str v = py_repr v"

subsection \<open>\<^verbatim>\<open>bson.ObjectId\<close>\<close>

text \<open>
  \<^verbatim>\<open>ObjectId(x)\<close> takes an \<^verbatim>\<open>ObjectId\<close> as it is, and a string of 24 characters
  that \<^verbatim>\<open>bytes.fromhex\<close> accepts; another string raises \<^verbatim>\<open>InvalidId\<close>, another
  type \<^verbatim>\<open>TypeError\<close>.  \<^verbatim>\<open>bytes.fromhex\<close> reads pairs of hexadecimal digits and
  skips ASCII whitespace before a pair and at the end, so the identifier of a string
  with whitespace has fewer than twelve bytes.  An identifier is kept as the text
  \<^verbatim>\<open>str\<close> gives for it, the digits in lower case.  \<^verbatim>\<open>ObjectId(None)\<close> is
  \<^verbatim>\<open>ObjectId()\<close>, a fresh identifier, and is handled where the environment is.
\<close>

definition is_hex :: "char \<Rightarrow> bool" where
  "is_hex c = (c \<in> set ''0123456789abcdefABCDEF'')"

definition is_space :: "char \<Rightarrow> bool" where
  "is_space c = (c \<in> set [CHR 0x09, CHR 0x0A, CHR 0x0B, CHR 0x0C, CHR 0x0D, CHR 0x20])"

definition lower_char :: "char \<Rightarrow> char" where
  "lower_char c =
     (if (65::nat) \<le> of_char c \<and> (of_char c :: nat) \<le> 90 then char_of (of_char c + (32::nat)) else c)"

fun fromhex :: "string \<Rightarrow> string option" where
  "fromhex [] = Some []"
| "fromhex [c] = (if is_space c then Some [] else None)"
| "fromhex (c # d # cs) =
     (if is_space c then fromhex (d # cs)
      else if is_hex c \<and> is_hex d
      then map_option (\<lambda>h. lower_char c # lower_char d # h) (fromhex cs)
      else None)"

fun ObjectId :: "pyval \<Rightarrow> exn + pyval" where
  "ObjectId (PObjectId h) = Inr (PObjectId h)"
| "ObjectId (PStr s) =
     (if length s = 24
      then (case fromhex s of None \<Rightarrow> Inl InvalidId | Some h \<Rightarrow> Inr (PObjectId h))
      else Inl InvalidId)"
| "ObjectId v = Inl TypeError"

fun py_setitem :: "pyval \<Rightarrow> string \<Rightarrow> pyval \<Rightarrow> exn + pyval" where
  "py_setitem (PDict d) k v = Inr (PDict (dict_set d k v))"
| "py_setitem x k v = Inl TypeError"

section \<open>Requests, collaborators and effects\<close>

text \<open>
  The request models (\<^verbatim>\<open>app.models.models\<close>) are not part of the source file; their
  fields are the ones the handlers read.  A field \<^verbatim>\<open>f\<close> of a model is the selector
  \<open>f_of\<close>, since several field names are also local variables of the handlers.
  \<^verbatim>\<open>AssessmentId\<close> and \<^verbatim>\<open>AssessmentCourse\<close> are passed to the handlers as their
  fields.  \<^verbatim>\<open>ListAssessments\<close> is read through \<^verbatim>\<open>hasattr\<close>, so it is the
  association list of its attributes.
\<close>

record question =
  question_id_of :: pyval
  question_latex_of :: pyval
  marks_of :: pyval

record assessment_section =
  section_name_of :: pyval
  description_of :: pyval
  questions_of_section :: "question list"

record assessment =
  name_of :: pyval
  course_of :: pyval
  start_date_of :: pyval
  end_date_of :: pyval
  total_time_of :: pyval
  total_marks_of :: pyval
  lessons_of :: pyval
  questions_of :: "assessment_section list"

record edit_assessment = assessment +
  assessment_id_of :: pyval

text \<open>
  Every call that leaves the handler: the document store (\<^verbatim>\<open>MongoDBConnector\<close>), the
  renderer, the query generator, the course helper, the object storage, the clock and
  the generator of fresh identifiers.  None of them is in the source file.  A
  collaborator is a function of the call and of the state of the world that returns a
  value or raises, and leaves a new state of the world; the handlers are defined for any
  such function.  \<open>LogMessage n\<close> is the call of \<^verbatim>\<open>logger.log_message\<close> at source
  line \<open>n\<close>: the logger is taken to return normally, and the text it receives is not
  modelled.
\<close>

datatype call =
    LogMessage nat
  | NewObjectId
  | UtcNow
  | GenerateAssessmentDocument string pyval "assessment + edit_assessment"
  | InsertOne pyval pydict
  | GenerateAssessmentListQuery pydict
  | RunAssessmentsListAggregation pyval pyval
  | FindOne pyval pydict
  | Find pyval pydict
  | UpdateOne pyval pydict pydict
  | DeleteOne pyval pydict
  | DeleteMany pyval pydict
  | CloudStorageInit
  | CreateSignedUrl pyval
  | CourseInit pyval
  | GetQuestionLibraryCollection pyval
  | GetCourseStudents pyval

type_synonym 'w env = "call \<Rightarrow> 'w \<Rightarrow> (exn + pyval) \<times> 'w"

text \<open>
  A handler runs on the state of the world and the list of the calls made so far, and
  ends with a value or an exception.
\<close>

type_synonym ('w, 'a) prog = "'w \<times> call list \<Rightarrow> (exn + 'a) \<times> ('w \<times> call list)"

definition ret :: "'a \<Rightarrow> ('w, 'a) prog" where
  "ret x = (\<lambda>s. (Inr x, s))"

definition raise :: "exn \<Rightarrow> ('w, 'a) prog" where
  "raise e = (\<lambda>s. (Inl e, s))"

definition lift :: "exn + 'a \<Rightarrow> ('w, 'a) prog" where
  "lift r = (\<lambda>s. (r, s))"

definition bind :: "('w, 'a) prog \<Rightarrow> ('a \<Rightarrow> ('w, 'b) prog) \<Rightarrow> ('w, 'b) prog" where
  "bind m f = (\<lambda>s. case m s of (Inl e, s') \<Rightarrow> (Inl e, s') | (Inr x, s') \<Rightarrow> f x s')"

definition try_except :: "('w, 'a) prog \<Rightarrow> (exn \<Rightarrow> ('w, 'a) prog) \<Rightarrow> ('w, 'a) prog" where
  "try_except m h = (\<lambda>s. case m s of (Inl e, s') \<Rightarrow> h e s' | (Inr x, s') \<Rightarrow> (Inr x, s'))"

definition perform :: "'w env \<Rightarrow> call \<Rightarrow> ('w, pyval) prog" where
  "perform env c = (\<lambda>(w, tr). case env c w of (r, w') \<Rightarrow> (r, (w', tr @ [c])))"

definition log_message :: "nat \<Rightarrow> ('w, unit) prog" where
  "log_message n = (\<lambda>(w, tr). (Inr (), (w, tr @ [LogMessage n])))"

fun for_each :: "'a list \<Rightarrow> ('a \<Rightarrow> ('w, 'b) prog) \<Rightarrow> ('w, 'b list) prog" where
  "for_each [] f = ret []"
| "for_each (x # xs) f = bind (f x) (\<lambda>y. bind (for_each xs f) (\<lambda>ys. ret (y # ys)))"

text \<open>\<^verbatim>\<open>ObjectId(x)\<close>, with the fresh identifier of \<^verbatim>\<open>ObjectId(None)\<close>.\<close>

definition make_ObjectId :: "'w env \<Rightarrow> pyval \<Rightarrow> ('w, pyval) prog" where
  "make_ObjectId env v = (if v = PNone then perform env NewObjectId else lift (ObjectId v))"

text \<open>The same sequencing for the parts of a handler that call nothing.\<close>

definition bindE :: "exn + 'a \<Rightarrow> ('a \<Rightarrow> exn + 'b) \<Rightarrow> exn + 'b" where
  "bindE r f = (case r of Inl e \<Rightarrow> Inl e | Inr x \<Rightarrow> f x)"

fun mapE :: "('a \<Rightarrow> exn + 'b) \<Rightarrow> 'a list \<Rightarrow> exn + 'b list" where
  "mapE f [] = Inr []"
| "mapE f (x # xs) = bindE (f x) (\<lambda>y. bindE (mapE f xs) (\<lambda>ys. Inr (y # ys)))"

definition success :: "string \<Rightarrow> pyval \<Rightarrow> pyval" where
  "success k v = PDict [(''status'', PStr ''success''), (k, v)]"

section \<open>The handlers\<close>

subsection \<open>\<^verbatim>\<open>delete_assessment\<close>\<close>

text \<open>
  The variable \<^verbatim>\<open>result\<close> is assigned by \<^verbatim>\<open>delete_one\<close> and again by
  \<^verbatim>\<open>delete_many\<close> inside the inner \<^verbatim>\<open>try\<close>.  The inner \<^verbatim>\<open>except\<close> catches every
  exception; the value \<^verbatim>\<open>result\<close> has afterwards depends on where the exception
  came from, so the inner block returns that value: the one of \<^verbatim>\<open>delete_one\<close> when
  \<^verbatim>\<open>delete_many\<close> raised, the one of \<^verbatim>\<open>delete_many\<close> when the f-string of line 441
  raised.
\<close>

definition delete_grades :: "'w env \<Rightarrow> pyval \<Rightarrow> pyval \<Rightarrow> string \<Rightarrow> pyval \<Rightarrow> pyval \<Rightarrow> ('w, pyval) prog" where
  "delete_grades env assessment_id course assesment_type collection_name result =
     try_except
       (bind (log_message 433) (\<lambda>_.
        bind (perform env (DeleteMany (PStr (py_str collection_name @ ''_'' @ assesment_type @ ''_db''))
                [(''assessment_id'', assessment_id), (''course_id'', course)])) (\<lambda>result'.
        try_except
          (bind (lift (py_getitem result' ''deleted_count'')) (\<lambda>_.
           bind (log_message 441) (\<lambda>_. ret result')))
          (\<lambda>e. bind (log_message 443) (\<lambda>_. ret result')))))
       (\<lambda>e. bind (log_message 443) (\<lambda>_. ret result))"

definition delete_assessment_body :: "'w env \<Rightarrow> pyval \<Rightarrow> pyval \<Rightarrow> string \<Rightarrow> ('w, pyval) prog" where
  "delete_assessment_body env assessment_id course assesment_type =
     bind (log_message 409) (\<lambda>_.
     bind (make_ObjectId env assessment_id) (\<lambda>oid.
     bind (log_message 416) (\<lambda>_.
     bind (perform env (DeleteOne (PStr (assesment_type @ ''_db'')) [(''_id'', oid)])) (\<lambda>result.
     bind (lift (py_getitem result ''deleted_count'')) (\<lambda>deleted_count.
     bind (if deleted_count = PInt 0
           then bind (log_message 420) (\<lambda>_. raise (HTTPException 404 ''Assessment not found''))
           else ret ()) (\<lambda>_.
     bind (log_message 423) (\<lambda>_.
     bind (log_message 426) (\<lambda>_.
     bind (perform env (CourseInit course)) (\<lambda>_.
     bind (log_message 428) (\<lambda>_.
     bind (perform env (GetQuestionLibraryCollection course)) (\<lambda>collection_name.
     bind (delete_grades env assessment_id course assesment_type collection_name result) (\<lambda>result.
     bind (lift (py_getitem result ''deleted_count'')) (\<lambda>deleted_count.
     ret (success ''message''
            (PStr (''Assessment and associated '' @ py_str deleted_count
                   @ '' student grade documents deleted successfully''))))))))))))))))"

definition delete_assessment :: "'w env \<Rightarrow> pyval \<Rightarrow> pyval \<Rightarrow> string \<Rightarrow> ('w, pyval) prog" where
  "delete_assessment env assessment_id course assesment_type =
     try_except (delete_assessment_body env assessment_id course assesment_type)
       (\<lambda>e. case e of
          HTTPException code detail \<Rightarrow> bind (log_message 451) (\<lambda>_. raise e)
        | _ \<Rightarrow> bind (log_message 455) (\<lambda>_. raise (HTTPException 500 ''Failed to delete assessment'')))"


subsection \<open>\<^verbatim>\<open>create_assessment\<close> and \<^verbatim>\<open>edit_assessment\<close>\<close>

definition question_dict :: "question \<Rightarrow> pyval" where
  "question_dict question =
     PDict [(''question_id'', question_id_of question),
            (''question_latex'', question_latex_of question),
            (''marks'', marks_of question)]"

definition section_dict :: "assessment_section \<Rightarrow> pyval" where
  "section_dict section =
     PDict [(''section_name'', section_name_of section),
            (''description'', description_of section),
            (''questions'', PList (map question_dict (questions_of_section section)))]"

text \<open>The dict literal \<^verbatim>\<open>assessment_data\<close> of both handlers, for any record that
  extends the assessment model.\<close>

definition assessment_dict :: "'a assessment_scheme \<Rightarrow> pyval \<Rightarrow> pydict" where
  "assessment_dict assessment now =
     [(''name'', name_of assessment),
      (''course'', course_of assessment),
      (''start_date'', start_date_of assessment),
      (''end_date'', end_date_of assessment),
      (''total_time'', total_time_of assessment),
      (''total_marks'', total_marks_of assessment),
      (''lessons'', lessons_of assessment),
      (''questions'', PList (map section_dict (questions_of assessment))),
      (''last_updated'', now)]"

definition create_assessment_body :: "'w env \<Rightarrow> assessment \<Rightarrow> string \<Rightarrow> ('w, pyval) prog" where
  "create_assessment_body env assessment assesment_type =
     bind (log_message 39) (\<lambda>_.
     bind (if questions_of assessment = []
           then raise (HTTPException 400 ''Assessment must contain at least one question'')
           else ret ()) (\<lambda>_.
     bind (perform env UtcNow) (\<lambda>now.
     bind (perform env NewObjectId) (\<lambda>new_id.
     bind (lift (ObjectId (PStr (py_str new_id)))) (\<lambda>oid.
     bind (log_message 78) (\<lambda>_.
     bind (log_message 80) (\<lambda>_.
     bind (perform env (GenerateAssessmentDocument assesment_type (PStr (py_str new_id)) (Inl assessment)))
       (\<lambda>question_paper.
     bind (log_message 82) (\<lambda>_.
     bind (perform env (InsertOne (PStr (assesment_type @ ''_db''))
             (dict_set (dict_set (assessment_dict assessment now) ''_id'' oid)
                ''question_paper'' question_paper))) (\<lambda>assessment_id.
     bind (log_message 91) (\<lambda>_.
     ret (success ''assessment_id'' assessment_id))))))))))))"

definition create_assessment :: "'w env \<Rightarrow> assessment \<Rightarrow> string \<Rightarrow> ('w, pyval) prog" where
  "create_assessment env assessment assesment_type =
     try_except (create_assessment_body env assessment assesment_type)
       (\<lambda>e. case e of
          HTTPException code detail \<Rightarrow> raise e
        | _ \<Rightarrow> bind (log_message 102) (\<lambda>_. raise (HTTPException 500 ''Internal server error'')))"

definition edit_assessment_body :: "'w env \<Rightarrow> edit_assessment \<Rightarrow> string \<Rightarrow> ('w, pyval) prog" where
  "edit_assessment_body env assessment assesment_type =
     bind (log_message 242) (\<lambda>_.
     bind (perform env UtcNow) (\<lambda>now.
     bind (perform env (GenerateAssessmentDocument assesment_type (assessment_id_of assessment)
             (Inr assessment))) (\<lambda>question_paper.
     bind (make_ObjectId env (assessment_id_of assessment)) (\<lambda>obj_id.
     bind (perform env (UpdateOne (PStr (assesment_type @ ''_db'')) [(''_id'', obj_id)]
             (dict_set (assessment_dict assessment now) ''question_paper'' question_paper))) (\<lambda>stat.
     ret (success ''assessment_id'' (assessment_id_of assessment)))))))"

definition edit_assessment :: "'w env \<Rightarrow> edit_assessment \<Rightarrow> string \<Rightarrow> ('w, pyval) prog" where
  "edit_assessment env assessment assesment_type =
     try_except (edit_assessment_body env assessment assesment_type)
       (\<lambda>e. case e of
          HTTPException code detail \<Rightarrow> raise e
        | _ \<Rightarrow> bind (log_message 299) (\<lambda>_. raise (HTTPException 500 ''Internal server error'')))"

subsection \<open>\<^verbatim>\<open>list_assessments\<close>\<close>

definition valid_filters :: "string list" where
  "valid_filters = [''course_id'', ''year'', ''month'']"

text \<open>
  \<^verbatim>\<open>assessment_filter\<close> is the list of the attributes of the request object:
  \<^verbatim>\<open>hasattr\<close> is the presence of the key.
\<close>

definition check_filters :: "pydict \<Rightarrow> ('w, unit) prog" where
  "check_filters assessment_filter =
     (case map_of assessment_filter ''filters'' of
        None \<Rightarrow> ret ()
      | Some filters \<Rightarrow>
          if truthy filters
          then bind (lift (py_keys filters)) (\<lambda>keys.
               if filter (\<lambda>f. f \<notin> set valid_filters) keys \<noteq> []
               then raise (HTTPException 400
                      (''Invalid filter name(s): '' @
                       join '', '' (filter (\<lambda>f. f \<notin> set valid_filters) keys)))
               else ret ())
          else ret ())"

definition list_assessments_body :: "'w env \<Rightarrow> pydict \<Rightarrow> string \<Rightarrow> ('w, pyval) prog" where
  "list_assessments_body env assessment_filter assesment_type =
     bind (log_message 110) (\<lambda>_.
     bind (check_filters assessment_filter) (\<lambda>_.
     bind (perform env (GenerateAssessmentListQuery assessment_filter)) (\<lambda>aggregation_pipeline.
     bind (perform env (RunAssessmentsListAggregation (PStr (assesment_type @ ''_db''))
             aggregation_pipeline)) (\<lambda>assessments_list.
     if \<not> truthy assessments_list
     then bind (log_message 129) (\<lambda>_. ret (success ''data'' (PList [])))
     else ret (success ''data'' assessments_list)))))"

definition list_assessments :: "'w env \<Rightarrow> pydict \<Rightarrow> string \<Rightarrow> ('w, pyval) prog" where
  "list_assessments env assessment_filter assesment_type =
     try_except (list_assessments_body env assessment_filter assesment_type)
       (\<lambda>e. case e of
          HTTPException code detail \<Rightarrow> raise e
        | _ \<Rightarrow> bind (log_message 144) (\<lambda>_. raise (HTTPException 500 ''Internal server error'')))"


subsection \<open>\<^verbatim>\<open>get_assessment_details\<close>\<close>

text \<open>The comprehension of line 172: the identifiers of all the embedded questions.\<close>

definition collect_question_ids :: "'w env \<Rightarrow> pyval \<Rightarrow> ('w, pyval list) prog" where
  "collect_question_ids env assessment_data =
     bind (lift (bindE (py_getitem assessment_data ''questions'') py_iter)) (\<lambda>sections.
     bind (for_each sections (\<lambda>section.
            bind (lift (bindE (py_getitem section ''questions'') py_iter)) (\<lambda>qs.
            for_each qs (\<lambda>q.
              bind (lift (py_getitem q ''question_id'')) (make_ObjectId env))))) (\<lambda>idss.
     ret (concat idss)))"

text \<open>
  Lines 203 to 205: every fetched question loses \<^verbatim>\<open>_id\<close>, gains \<^verbatim>\<open>id\<close>, the text
  of the identifier, and is stored in \<^verbatim>\<open>questions_data_map\<close> under that text.
\<close>

fun build_questions_data_map :: "pyval list \<Rightarrow> pydict \<Rightarrow> exn + pydict" where
  "build_questions_data_map [] questions_data_map = Inr questions_data_map"
| "build_questions_data_map (question # rest) questions_data_map =
     bindE (py_pop question ''_id'') (\<lambda>(oid, popped).
     bindE (py_setitem popped ''id'' (PStr (py_str oid))) (\<lambda>question'.
     build_questions_data_map rest (dict_set questions_data_map (py_str oid) question')))"

text \<open>\<^verbatim>\<open>questions_data_map[key]\<close>: the keys of the map are strings.\<close>

fun lookup_question :: "pydict \<Rightarrow> pyval \<Rightarrow> exn + pyval" where
  "lookup_question questions_data_map (PStr k) = getitem questions_data_map k"
| "lookup_question questions_data_map key =
     (if hashable key then Inl (KeyError key) else Inl TypeError)"

fun py_update :: "pyval \<Rightarrow> pyval \<Rightarrow> exn + pyval" where
  "py_update (PDict d) (PDict e) = Inr (PDict (dict_update d e))"
| "py_update (PDict d) v = Inl TypeError"
| "py_update x v = Inl AttributeError"

text \<open>
  Lines 214 to 218, the body of the inner loop without its log message.  The stub is
  changed in place; the function returns the stub as it is afterwards.
\<close>

definition merge_question :: "pydict \<Rightarrow> pyval \<Rightarrow> exn + pyval" where
  "merge_question questions_data_map question =
     bindE (py_getitem question ''question_id'') (\<lambda>key.
     bindE (lookup_question questions_data_map key) (\<lambda>question_data.
     bindE (py_getitem question ''marks'') (\<lambda>question_marks.
     bindE (py_update question question_data) (\<lambda>updated.
     py_setitem updated ''marks'' question_marks))))"

text \<open>
  A loop that changes the elements of a list in place leaves a list of the changed
  elements; iterating a dict or a string changes nothing in it.
\<close>

fun rebuild :: "pyval \<Rightarrow> pyval list \<Rightarrow> pyval" where
  "rebuild (PList xs) ys = PList ys"
| "rebuild v ys = v"

definition merge_section :: "pydict \<Rightarrow> pyval \<Rightarrow> ('w, pyval) prog" where
  "merge_section questions_data_map section =
     bind (log_message 211) (\<lambda>_.
     bind (lift (py_getitem section ''questions'')) (\<lambda>stubs.
     bind (lift (py_iter stubs)) (\<lambda>qs.
     bind (for_each qs (\<lambda>question.
            bind (log_message 213) (\<lambda>_. lift (merge_question questions_data_map question))))
       (\<lambda>merged.
     lift (py_setitem section ''questions'' (rebuild stubs merged))))))"

definition merge_sections :: "pydict \<Rightarrow> pyval \<Rightarrow> ('w, pyval) prog" where
  "merge_sections questions_data_map assessment_data =
     bind (lift (py_getitem assessment_data ''questions'')) (\<lambda>secs.
     bind (lift (py_iter secs)) (\<lambda>sections.
     bind (for_each sections (merge_section questions_data_map)) (\<lambda>merged.
     lift (py_setitem assessment_data ''questions'' (rebuild secs merged)))))"

text \<open>
  Lines 153 to 206: the assessment is fetched and prepared for the response, the
  questions are fetched from the library of the course and \<^verbatim>\<open>questions_data_map\<close>
  is built.  The two \<^verbatim>\<open>print\<close> calls are left out.
\<close>

definition fetch_questions :: "'w env \<Rightarrow> pyval \<Rightarrow> string \<Rightarrow> ('w, pyval \<times> pydict) prog" where
  "fetch_questions env assessment_id assesment_type =
     bind (log_message 153) (\<lambda>_.
     bind (make_ObjectId env assessment_id) (\<lambda>oid.
     bind (log_message 161) (\<lambda>_.
     bind (perform env (FindOne (PStr (assesment_type @ ''_db'')) [(''_id'', oid)])) (\<lambda>found.
     bind (if \<not> truthy found
           then bind (log_message 165) (\<lambda>_.
                raise (HTTPException 404 ''No Data found for given assessment''))
           else ret ()) (\<lambda>_.
     bind (lift (py_pop found ''_id'')) (\<lambda>(doc_id, popped).
     bind (lift (py_setitem popped ''id'' (PStr (py_str doc_id)))) (\<lambda>assessment_data.
     bind (log_message 170) (\<lambda>_.
     bind (collect_question_ids env assessment_data) (\<lambda>question_ids.
     bind (log_message 173) (\<lambda>_.
     bind (perform env CloudStorageInit) (\<lambda>_.
     bind (lift (py_getitem assessment_data ''question_paper'')) (\<lambda>object_url.
     bind (perform env (CreateSignedUrl object_url)) (\<lambda>signed_url.
     bind (lift (py_setitem assessment_data ''question_paper'' signed_url)) (\<lambda>assessment_data.
     bind (lift (py_getitem assessment_data ''course'')) (\<lambda>course.
     bind (log_message 187) (\<lambda>_.
     bind (perform env (CourseInit course)) (\<lambda>_.
     bind (perform env (GetQuestionLibraryCollection course)) (\<lambda>collection_name.
     bind (log_message 192) (\<lambda>_.
     bind (perform env (Find collection_name [(''_id'', PDict [(''$in'', PList question_ids)])]))
       (\<lambda>questions_data.
     bind (log_message 196) (\<lambda>_.
     bind (log_message 202) (\<lambda>_.
     bind (lift (bindE (py_iter questions_data) (\<lambda>qs. build_questions_data_map qs [])))
       (\<lambda>questions_data_map.
     ret (assessment_data, questions_data_map))))))))))))))))))))))))"

definition get_assessment_details_body :: "'w env \<Rightarrow> pyval \<Rightarrow> string \<Rightarrow> ('w, pyval) prog" where
  "get_assessment_details_body env assessment_id assesment_type =
     bind (fetch_questions env assessment_id assesment_type) (\<lambda>(assessment_data, questions_data_map).
     bind (log_message 208) (\<lambda>_.
     bind (merge_sections questions_data_map assessment_data) (\<lambda>assessment_data.
     bind (log_message 220) (\<lambda>_.
     ret (success ''data'' assessment_data)))))"

definition get_assessment_details :: "'w env \<Rightarrow> pyval \<Rightarrow> string \<Rightarrow> ('w, pyval) prog" where
  "get_assessment_details env assessment_id assesment_type =
     try_except (get_assessment_details_body env assessment_id assesment_type)
       (\<lambda>e. case e of
          HTTPException code detail \<Rightarrow> raise e
        | _ \<Rightarrow> bind (log_message 231) (\<lambda>_. raise (HTTPException 500 ''Internal server error'')))"

subsection \<open>\<^verbatim>\<open>get_assessment_student_grades\<close>\<close>

text \<open>The comprehension of line 349; a later roster entry with the same
  \<^verbatim>\<open>student_id\<close> replaces the earlier one.\<close>

fun build_students_mapping :: "pyval list \<Rightarrow> (pyval \<times> pyval) list \<Rightarrow> exn + (pyval \<times> pyval) list" where
  "build_students_mapping [] students_mapping = Inr students_mapping"
| "build_students_mapping (student # rest) students_mapping =
     bindE (py_getitem student ''student_id'') (\<lambda>student_id.
     if hashable student_id
     then build_students_mapping rest (dict_set students_mapping student_id student)
     else Inl TypeError)"

text \<open>The dict literal of lines 363 to 369 and 384 to 390.\<close>

definition placeholder_dict :: "pyval \<Rightarrow> pyval \<Rightarrow> pydict \<Rightarrow> pydict" where
  "placeholder_dict assessment_id course entry =
     dict_set (dict_set
       (dict_update [(''assessment_id'', assessment_id), (''course_id'', course)] entry)
       ''marks'' PNone) ''status'' PNone"

definition placeholder :: "pyval \<Rightarrow> pyval \<Rightarrow> pyval \<Rightarrow> exn + pyval" where
  "placeholder assessment_id course student =
     bindE (py_mapping student) (\<lambda>entry. Inr (PDict (placeholder_dict assessment_id course entry)))"

text \<open>
  The loop of lines 377 to 381: every grade record loses \<^verbatim>\<open>_id\<close>, and its student
  leaves \<^verbatim>\<open>students_mapping\<close>.  The result is the list of the records as they are
  afterwards and what is left of the mapping.
\<close>

fun strip_grades ::
  "pyval list \<Rightarrow> (pyval \<times> pyval) list \<Rightarrow> exn + (pyval list \<times> (pyval \<times> pyval) list)" where
  "strip_grades [] students_mapping = Inr ([], students_mapping)"
| "strip_grades (student_grade # rest) students_mapping =
     bindE (py_pop student_grade ''_id'') (\<lambda>(oid, stripped).
     bindE (py_getitem stripped ''student_id'') (\<lambda>student_id.
     if hashable student_id
     then bindE (strip_grades rest (dict_del students_mapping student_id)) (\<lambda>(grades, left).
          Inr (stripped # grades, left))
     else Inl TypeError))"

text \<open>\<^verbatim>\<open>student_grades.append\<close> for every placeholder: only a list has it.\<close>

fun append_all :: "pyval \<Rightarrow> pyval list \<Rightarrow> pyval list \<Rightarrow> exn + pyval" where
  "append_all (PList xs) grades missing = Inr (PList (grades @ missing))"
| "append_all v grades missing = (if missing = [] then Inr v else Inl AttributeError)"

definition get_assessment_student_grades_body ::
  "'w env \<Rightarrow> pyval \<Rightarrow> pyval \<Rightarrow> string \<Rightarrow> ('w, pyval) prog" where
  "get_assessment_student_grades_body env assessment_id course assesment_type =
     bind (log_message 338) (\<lambda>_.
     bind (log_message 342) (\<lambda>_.
     bind (perform env (CourseInit course)) (\<lambda>_.
     bind (log_message 344) (\<lambda>_.
     bind (perform env (GetQuestionLibraryCollection course)) (\<lambda>collection_name.
     bind (log_message 346) (\<lambda>_.
     bind (perform env (GetCourseStudents course)) (\<lambda>students_data.
     bind (lift (bindE (py_iter students_data) (\<lambda>students. build_students_mapping students [])))
       (\<lambda>students_mapping.
     bind (log_message 355) (\<lambda>_.
     bind (perform env (Find (PStr (py_str collection_name @ ''_'' @ assesment_type @ ''_db''))
             [(''assessment_id'', assessment_id), (''course_id'', course)])) (\<lambda>student_grades.
     if \<not> truthy student_grades
     then bind (log_message 359) (\<lambda>_.
          bind (lift (bindE (py_iter students_data) (mapE (placeholder assessment_id course))))
            (\<lambda>data.
          ret (success ''data'' (PList data))))
     else bind (log_message 374) (\<lambda>_.
          bind (lift (bindE (py_iter student_grades) (\<lambda>grades.
                  strip_grades grades students_mapping))) (\<lambda>(grades, left).
          bind (lift (mapE (\<lambda>(missing_student, student). placeholder assessment_id course student)
                  left)) (\<lambda>missing.
          bind (lift (append_all student_grades grades missing)) (\<lambda>data.
          ret (success ''data'' data)))))))))))))))"

definition get_assessment_student_grades ::
  "'w env \<Rightarrow> pyval \<Rightarrow> pyval \<Rightarrow> string \<Rightarrow> ('w, pyval) prog" where
  "get_assessment_student_grades env assessment_id course assesment_type =
     try_except (get_assessment_student_grades_body env assessment_id course assesment_type)
       (\<lambda>e. case e of
          HTTPException code detail \<Rightarrow> raise e
        | _ \<Rightarrow> bind (log_message 401) (\<lambda>_. raise (HTTPException 500 ''Failed to fetch student grades'')))"


section \<open>A document store\<close>

text \<open>
  Modelled from the spec: the document-store driver (\<^verbatim>\<open>MongoDBConnector\<close>) and the
  course helper (\<^verbatim>\<open>Course\<close>) are not in the source file.  The spec gives their
  contract: every operation is keyed by a collection name and a query or document;
  \<^verbatim>\<open>delete_one\<close> removes one matching document and \<^verbatim>\<open>delete_many\<close> every matching
  document, and both report the number removed under \<^verbatim>\<open>deleted_count\<close>, as the
  handlers read it; \<^verbatim>\<open>find\<close> returns the matching documents, \<^verbatim>\<open>find_one\<close> the
  first of them or \<^verbatim>\<open>None\<close>; \<^verbatim>\<open>update_one\<close> overwrites the given fields of the
  first matching document; the course helper resolves the name of the collection of a
  course and its roster.  The renderer, the storage, the clock and the query generator
  play no part here and return \<^verbatim>\<open>None\<close>.  A store is the list of the documents of
  every collection.  A
  query is a document: a stored document matches when it has every field of the query
  with the same value, or with one of the listed values under \<^verbatim>\<open>$in\<close>.
\<close>

type_synonym store = "pyval \<Rightarrow> pydict list"

fun field_matches :: "pyval \<Rightarrow> pyval option \<Rightarrow> bool" where
  "field_matches (PDict [(op, PList vs)]) (Some v) = (if op = ''$in'' then v \<in> set vs else v = PDict [(op, PList vs)])"
| "field_matches cond (Some v) = (v = cond)"
| "field_matches cond None = False"

definition matches :: "pydict \<Rightarrow> pydict \<Rightarrow> bool" where
  "matches query doc = list_all (\<lambda>(k, cond). field_matches cond (map_of doc k)) query"

fun remove_first :: "('a \<Rightarrow> bool) \<Rightarrow> 'a list \<Rightarrow> 'a list" where
  "remove_first P [] = []"
| "remove_first P (x # xs) = (if P x then xs else x # remove_first P xs)"

fun update_first :: "('a \<Rightarrow> bool) \<Rightarrow> ('a \<Rightarrow> 'a) \<Rightarrow> 'a list \<Rightarrow> 'a list" where
  "update_first P f [] = []"
| "update_first P f (x # xs) = (if P x then f x # xs else x # update_first P f xs)"

definition deleted_count :: "nat \<Rightarrow> pyval" where
  "deleted_count n = PDict [(''deleted_count'', PInt (int n))]"

definition store_env :: "(pyval \<Rightarrow> pyval) \<Rightarrow> (pyval \<Rightarrow> pyval) \<Rightarrow> store env" where
  "store_env library roster c w =
     (case c of
        DeleteOne collection query \<Rightarrow>
          (Inr (deleted_count (if list_ex (matches query) (w collection) then 1 else 0)),
           w(collection := remove_first (matches query) (w collection)))
      | DeleteMany collection query \<Rightarrow>
          (Inr (deleted_count (length (filter (matches query) (w collection)))),
           w(collection := filter (\<lambda>doc. \<not> matches query doc) (w collection)))
      | Find collection query \<Rightarrow>
          (Inr (PList (map PDict (filter (matches query) (w collection)))), w)
      | FindOne collection query \<Rightarrow>
          (Inr (case find (matches query) (w collection) of None \<Rightarrow> PNone | Some doc \<Rightarrow> PDict doc), w)
      | UpdateOne collection query update_data \<Rightarrow>
          (Inr (PDict [(''matched_count'', PInt (if list_ex (matches query) (w collection) then 1 else 0))]),
           w(collection := update_first (matches query) (\<lambda>doc. dict_update doc update_data) (w collection)))
      | InsertOne collection document \<Rightarrow>
          (Inr (case map_of document ''_id'' of None \<Rightarrow> PNone | Some oid \<Rightarrow> PStr (py_str oid)),
           w(collection := w collection @ [document]))
      | GetQuestionLibraryCollection course \<Rightarrow> (Inr (library course), w)
      | GetCourseStudents course \<Rightarrow> (Inr (roster course), w)
      | _ \<Rightarrow> (Inr PNone, w))"

text \<open>The same store when the grade records cannot be deleted.\<close>

definition failing_delete_many :: "'w env \<Rightarrow> 'w env" where
  "failing_delete_many env c w =
     (case c of
        DeleteMany collection query \<Rightarrow> (Inl (CollaboratorError ''delete_many failed''), w)
      | _ \<Rightarrow> env c w)"


section \<open>A small course\<close>

text \<open>
  One quiz of the course \<^verbatim>\<open>math\<close> with one embedded question, three grade records of
  which two belong to the quiz, the question library of the course and a roster of
  three students.
\<close>

definition example_id :: string where
  "example_id = ''65f0a1b2c3d4e5f601234567''"

definition example_store :: store where
  "example_store = (\<lambda>collection. [])
     (PStr ''quiz_db'' :=
        [[(''_id'', PObjectId example_id), (''name'', PStr ''Quiz 1''), (''course'', PStr ''math''),
          (''questions'', PList [PDict [(''section_name'', PStr ''A''),
             (''questions'', PList [PDict [(''question_id'', PStr ''65f0a1b2c3d4e5f6000000aa''),
                                           (''question_latex'', PStr ''x''), (''marks'', PInt 5)]])]]),
          (''question_paper'', PStr ''quiz1.pdf'')]],
      PStr ''math_quiz_db'' :=
        [[(''_id'', PObjectId ''65f0a1b2c3d4e5f6000000b1''), (''assessment_id'', PStr example_id),
          (''course_id'', PStr ''math''), (''student_id'', PStr ''s1''), (''marks'', PInt 7),
          (''status'', PStr ''graded'')],
         [(''_id'', PObjectId ''65f0a1b2c3d4e5f6000000b2''), (''assessment_id'', PStr ''other''),
          (''course_id'', PStr ''math''), (''student_id'', PStr ''s1''), (''marks'', PInt 3),
          (''status'', PStr ''graded'')],
         [(''_id'', PObjectId ''65f0a1b2c3d4e5f6000000b3''), (''assessment_id'', PStr example_id),
          (''course_id'', PStr ''math''), (''student_id'', PStr ''s2''), (''marks'', PInt 9),
          (''status'', PStr ''graded'')]],
      PStr ''math'' :=
        [[(''_id'', PObjectId ''65f0a1b2c3d4e5f6000000aa''), (''question_latex'', PStr ''full text''),
          (''marks'', PInt 10), (''answer'', PStr ''42'')]])"

definition example_library :: "pyval \<Rightarrow> pyval" where
  "example_library course = course"

definition example_roster :: "pyval \<Rightarrow> pyval" where
  "example_roster course =
     PList [PDict [(''student_id'', PStr ''s1''), (''name'', PStr ''Ann'')],
            PDict [(''student_id'', PStr ''s2''), (''name'', PStr ''Bob'')],
            PDict [(''student_id'', PStr ''s3''), (''name'', PStr ''Cy'')]]"

definition example_env :: "store env" where
  "example_env = store_env example_library example_roster"

definition empty_assessment :: assessment where
  "empty_assessment =
     \<lparr>name_of = PStr ''Quiz 2'', course_of = PStr ''math'', start_date_of = PNone,
      end_date_of = PNone, total_time_of = PInt 30, total_marks_of = PInt 10,
      lessons_of = PList [], questions_of = []\<rparr>"

definition example_edit :: edit_assessment where
  "example_edit =
     \<lparr>name_of = PStr ''Exam 1'', course_of = PStr ''math'', start_date_of = PNone,
      end_date_of = PNone, total_time_of = PInt 90, total_marks_of = PInt 5,
      lessons_of = PList [],
      questions_of = [\<lparr>section_name_of = PStr ''A'', description_of = PStr ''algebra'',
         questions_of_section = [\<lparr>question_id_of = PStr ''65f0a1b2c3d4e5f6000000aa'',
            question_latex_of = PStr ''x'', marks_of = PInt 5\<rparr>]\<rparr>],
      assessment_id_of = PStr example_id\<rparr>"

text \<open>A clock and a renderer that return something to tell apart.\<close>

definition rendering :: "'w env \<Rightarrow> 'w env" where
  "rendering env c w =
     (case c of
        UtcNow \<Rightarrow> (Inr (PInt 1700000000), w)
      | GenerateAssessmentDocument assesment_type assessment_id assessment \<Rightarrow>
          (Inr (PStr (''papers/'' @ py_str assessment_id @ ''.pdf'')), w)
      | _ \<Rightarrow> env c w)"

text \<open>
  What the theorems about the grade list ask of the data.  A roster entry is a dict,
  so it holds every key once, and has a hashable \<^verbatim>\<open>student_id\<close>; a grade record has
  an \<^verbatim>\<open>_id\<close> and a hashable \<^verbatim>\<open>student_id\<close>.  \<open>expected_grades\<close> is the list the
  spec describes: the stored records without \<^verbatim>\<open>_id\<close>, then a placeholder for every
  roster entry whose student has no record.
\<close>

definition student_id_of :: "pydict \<Rightarrow> pyval option" where
  "student_id_of d = map_of d ''student_id''"

definition roster_ok :: "pydict \<Rightarrow> bool" where
  "roster_ok entry = (distinct (dict_keys entry) \<and>
     (case student_id_of entry of None \<Rightarrow> False | Some sid \<Rightarrow> hashable sid))"

definition grade_ok :: "pydict \<Rightarrow> bool" where
  "grade_ok grade = (map_of grade ''_id'' \<noteq> None \<and>
     (case student_id_of grade of None \<Rightarrow> False | Some sid \<Rightarrow> hashable sid))"

definition expected_grades :: "pyval \<Rightarrow> pyval \<Rightarrow> pydict list \<Rightarrow> pydict list \<Rightarrow> pydict list" where
  "expected_grades assessment_id course roster grades =
     map (\<lambda>grade. filter (\<lambda>field. fst field \<noteq> ''_id'') grade) grades @
     map (placeholder_dict assessment_id course)
       (filter (\<lambda>entry. student_id_of entry \<notin> set (map student_id_of grades)) roster)"

definition short_roster :: "pyval \<Rightarrow> pyval" where
  "short_roster course = PList [PDict [(''student_id'', PStr ''s1''), (''name'', PStr ''Ann'')]]"

definition transfer_roster :: "pyval \<Rightarrow> pyval" where
  "transfer_roster course =
     PList [PDict [(''student_id'', PStr ''s9''), (''course_id'', PStr ''physics'')]]"

definition quiz_grades :: "pydict list" where
  "quiz_grades =
     [[(''_id'', PObjectId ''65f0a1b2c3d4e5f6000000b1''), (''assessment_id'', PStr example_id),
       (''course_id'', PStr ''math''), (''student_id'', PStr ''s1''), (''marks'', PInt 7),
       (''status'', PStr ''graded'')],
      [(''_id'', PObjectId ''65f0a1b2c3d4e5f6000000b3''), (''assessment_id'', PStr example_id),
       (''course_id'', PStr ''math''), (''student_id'', PStr ''s2''), (''marks'', PInt 9),
       (''status'', PStr ''graded'')]]"

definition math_roster :: "pydict list" where
  "math_roster =
     [[(''student_id'', PStr ''s1''), (''name'', PStr ''Ann'')],
      [(''student_id'', PStr ''s2''), (''name'', PStr ''Bob'')],
      [(''student_id'', PStr ''s3''), (''name'', PStr ''Cy'')]]"

text \<open>
  Rosters and stores the handler answers differently to: a roster entry without
  \<^verbatim>\<open>student_id\<close>, one whose \<^verbatim>\<open>student_id\<close> is a list, a roster that lists a student
  twice, two grade records of one student, a grade record without \<^verbatim>\<open>student_id\<close>, one
  whose \<^verbatim>\<open>student_id\<close> is a list and one without \<^verbatim>\<open>_id\<close>.
\<close>

definition anonymous_roster :: "pyval \<Rightarrow> pyval" where
  "anonymous_roster course = PList [PDict [(''name'', PStr ''Dee'')]]"

definition double_roster :: "pyval \<Rightarrow> pyval" where
  "double_roster course =
     PList [PDict [(''student_id'', PStr ''s1''), (''name'', PStr ''Ann'')],
            PDict [(''student_id'', PStr ''s3''), (''name'', PStr ''Cy'')],
            PDict [(''student_id'', PStr ''s3''), (''name'', PStr ''Cyril'')]]"

definition regraded_store :: store where
  "regraded_store = example_store
     (PStr ''math_quiz_db'' :=
        [[(''_id'', PObjectId ''65f0a1b2c3d4e5f6000000b1''), (''assessment_id'', PStr example_id),
          (''course_id'', PStr ''math''), (''student_id'', PStr ''s1''), (''marks'', PInt 7),
          (''status'', PStr ''graded'')],
         [(''_id'', PObjectId ''65f0a1b2c3d4e5f6000000b4''), (''assessment_id'', PStr example_id),
          (''course_id'', PStr ''math''), (''student_id'', PStr ''s1''), (''marks'', PInt 8),
          (''status'', PStr ''graded'')]])"

definition unsigned_store :: store where
  "unsigned_store = example_store
     (PStr ''math_quiz_db'' :=
        [[(''_id'', PObjectId ''65f0a1b2c3d4e5f6000000b1''), (''assessment_id'', PStr example_id),
          (''course_id'', PStr ''math''), (''marks'', PInt 7), (''status'', PStr ''graded'')]])"

definition unkeyed_store :: store where
  "unkeyed_store = example_store
     (PStr ''math_quiz_db'' :=
        [[(''assessment_id'', PStr example_id), (''course_id'', PStr ''math''),
          (''student_id'', PStr ''s1''), (''marks'', PInt 7), (''status'', PStr ''graded'')]])"

definition listed_roster :: "pyval \<Rightarrow> pyval" where
  "listed_roster course =
     PList [PDict [(''student_id'', PList [PStr ''s1'']), (''name'', PStr ''Ann'')]]"

definition listed_store :: store where
  "listed_store = example_store
     (PStr ''math_quiz_db'' :=
        [[(''_id'', PObjectId ''65f0a1b2c3d4e5f6000000b1''), (''assessment_id'', PStr example_id),
          (''course_id'', PStr ''math''), (''student_id'', PList [PStr ''s1'']),
          (''marks'', PInt 7), (''status'', PStr ''graded'')]])"

text \<open>
  An \<^verbatim>\<open>HTTPException\<close> passes the outer boundary of a handler as it is; every other
  exception becomes the 500 of the handler.
\<close>

definition is_http :: "exn \<Rightarrow> bool" where
  "is_http e = (case e of HTTPException code detail \<Rightarrow> True | _ \<Rightarrow> False)"

text \<open>What the loops of lines 210 to 218 compute, without their log messages.\<close>

definition merged_section :: "pydict \<Rightarrow> pyval \<Rightarrow> exn + pyval" where
  "merged_section questions_data_map section =
     bindE (py_getitem section ''questions'') (\<lambda>stubs.
     bindE (py_iter stubs) (\<lambda>qs.
     bindE (mapE (merge_question questions_data_map) qs) (\<lambda>merged.
     py_setitem section ''questions'' (rebuild stubs merged))))"

definition merged_assessment :: "pydict \<Rightarrow> pyval \<Rightarrow> exn + pyval" where
  "merged_assessment questions_data_map assessment_data =
     bindE (py_getitem assessment_data ''questions'') (\<lambda>secs.
     bindE (py_iter secs) (\<lambda>sections.
     bindE (mapE (merged_section questions_data_map) sections) (\<lambda>merged.
     py_setitem assessment_data ''questions'' (rebuild secs merged))))"

text \<open>
  The elements a loop over \<^verbatim>\<open>v['questions']\<close> visits: the sections of an assessment,
  the question stubs of a section.
\<close>

definition questions_in :: "pyval \<Rightarrow> pyval list" where
  "questions_in v = (case bindE (py_getitem v ''questions'') py_iter of Inl e \<Rightarrow> [] | Inr xs \<Rightarrow> xs)"

text \<open>
  The documents of \<^verbatim>\<open>questions_data_map\<close> are dicts, so each holds every key once.
  \<open>merged_from\<close> is what the spec says of a merged question: its stub names a document
  of the map, it has the \<^verbatim>\<open>marks\<close> of the stub, and on every other field of the
  library document it has the value of the library document.
\<close>

definition lib_ok :: "pydict \<Rightarrow> bool" where
  "lib_ok questions_data_map =
     list_all (\<lambda>(key, doc). case doc of PDict lib \<Rightarrow> distinct (dict_keys lib) | _ \<Rightarrow> True)
       questions_data_map"

definition merged_from :: "pydict \<Rightarrow> pyval \<Rightarrow> pyval \<Rightarrow> bool" where
  "merged_from questions_data_map stub merged =
     (case (stub, merged) of
        (PDict s, PDict r) \<Rightarrow>
          (case map_of s ''question_id'' of
             Some (PStr key) \<Rightarrow>
               (case map_of questions_data_map key of
                  Some (PDict lib) \<Rightarrow>
                    map_of s ''marks'' \<noteq> None \<and> map_of r ''marks'' = map_of s ''marks''
                    \<and> list_all (\<lambda>(field, v). field = ''marks'' \<or> map_of r field = Some v) lib
                | _ \<Rightarrow> False)
           | _ \<Rightarrow> False)
      | _ \<Rightarrow> False)"

text \<open>
  The quiz as \<^verbatim>\<open>get_assessment_details\<close> prepares it, its section and question
  stub, the lookup table of the library, the quiz as returned, and the store with an
  empty question library.
\<close>

definition empty_library_store :: store where
  "empty_library_store = example_store(PStr ''math'' := [])"

definition quiz_data :: pyval where
  "quiz_data =
     PDict [(''name'', PStr ''Quiz 1''), (''course'', PStr ''math''),
        (''questions'', PList [PDict [(''section_name'', PStr ''A''),
           (''questions'', PList [PDict [(''question_id'', PStr ''65f0a1b2c3d4e5f6000000aa''),
                                         (''question_latex'', PStr ''x''), (''marks'', PInt 5)]])]]),
        (''question_paper'', PNone),
        (''id'', PStr example_id)]"

definition quiz_library :: pydict where
  "quiz_library =
     [(''65f0a1b2c3d4e5f6000000aa'',
       PDict [(''question_latex'', PStr ''full text''), (''marks'', PInt 10),
              (''answer'', PStr ''42''), (''id'', PStr ''65f0a1b2c3d4e5f6000000aa'')])]"

definition quiz_stub :: pyval where
  "quiz_stub = PDict [(''question_id'', PStr ''65f0a1b2c3d4e5f6000000aa''),
                      (''question_latex'', PStr ''x''), (''marks'', PInt 5)]"

definition quiz_section :: pyval where
  "quiz_section = PDict [(''section_name'', PStr ''A''), (''questions'', PList [quiz_stub])]"

definition quiz_returned :: pyval where
  "quiz_returned =
     PDict [(''name'', PStr ''Quiz 1''), (''course'', PStr ''math''),
        (''questions'', PList [PDict [(''section_name'', PStr ''A''),
           (''questions'', PList [PDict [(''question_id'', PStr ''65f0a1b2c3d4e5f6000000aa''),
              (''question_latex'', PStr ''full text''), (''marks'', PInt 5),
              (''answer'', PStr ''42''), (''id'', PStr ''65f0a1b2c3d4e5f6000000aa'')]])]]),
        (''question_paper'', PNone),
        (''id'', PStr example_id)]"

section \<open>Running a handler\<close>

declare success_def [simp]

lemma ret_apply [simp]: "ret x s = (Inr x, s)"
  by (simp add: ret_def)

lemma raise_apply [simp]: "raise e s = (Inl e, s)"
  by (simp add: raise_def)

lemma lift_apply [simp]: "lift r s = (r, s)"
  by (simp add: lift_def)

lemma log_message_apply [simp]: "log_message n (w, tr) = (Inr (), (w, tr @ [LogMessage n]))"
  by (simp add: log_message_def)

lemma bind_assoc [simp]: "bind (bind m f) g = bind m (\<lambda>x. bind (f x) g)"
  by (auto simp: bind_def fun_eq_iff split: prod.splits sum.splits)

lemma bind_ret [simp]: "bind (ret x) f s = f x s"
  by (simp add: bind_def)

lemma bind_raise [simp]: "bind (raise e) f s = (Inl e, s)"
  by (simp add: bind_def)

lemma bind_lift_Inr [simp]: "bind (lift (Inr x)) f s = f x s"
  by (simp add: bind_def)

lemma bind_lift_Inl [simp]: "bind (lift (Inl e)) f s = (Inl e, s)"
  by (simp add: bind_def)

lemma bind_log_message [simp]: "bind (log_message n) f (w, tr) = f () (w, tr @ [LogMessage n])"
  by (simp add: bind_def)

lemma bind_perform_Inr:
  "env c w = (Inr x, w') \<Longrightarrow> bind (perform env c) f (w, tr) = f x (w', tr @ [c])"
  by (simp add: bind_def perform_def)

lemma bind_perform_Inl:
  "env c w = (Inl e, w') \<Longrightarrow> bind (perform env c) f (w, tr) = (Inl e, (w', tr @ [c]))"
  by (simp add: bind_def perform_def)

lemma make_ObjectId_Inr:
  "ObjectId v = Inr oid \<Longrightarrow> make_ObjectId env v = lift (Inr oid)"
  by (cases v) (auto simp: make_ObjectId_def split: if_splits)

lemma store_env_simps [simp]:
  "store_env library roster (DeleteOne collection query) w =
     (Inr (deleted_count (if list_ex (matches query) (w collection) then 1 else 0)),
      w(collection := remove_first (matches query) (w collection)))"
  "store_env library roster (DeleteMany collection query) w =
     (Inr (deleted_count (length (filter (matches query) (w collection)))),
      w(collection := filter (\<lambda>doc. \<not> matches query doc) (w collection)))"
  "store_env library roster (Find collection query) w =
     (Inr (PList (map PDict (filter (matches query) (w collection)))), w)"
  "store_env library roster (FindOne collection query) w =
     (Inr (case find (matches query) (w collection) of None \<Rightarrow> PNone | Some doc \<Rightarrow> PDict doc), w)"
  "store_env library roster (GetQuestionLibraryCollection course) w = (Inr (library course), w)"
  "store_env library roster (GetCourseStudents course) w = (Inr (roster course), w)"
  "store_env library roster (CourseInit course) w = (Inr PNone, w)"
  "store_env library roster CloudStorageInit w = (Inr PNone, w)"
  "store_env library roster (CreateSignedUrl url) w = (Inr PNone, w)"
  "store_env library roster UtcNow w = (Inr PNone, w)"
  "store_env library roster (GenerateAssessmentDocument t i a) w = (Inr PNone, w)"
  by (simp_all add: store_env_def)

lemma deleted_count_getitem [simp]:
  "py_getitem (deleted_count n) ''deleted_count'' = Inr (PInt (int n))"
  by (simp add: deleted_count_def getitem_def)

lemma failing_delete_many_simps [simp]:
  "failing_delete_many env (DeleteMany collection query) w = (Inl (CollaboratorError ''delete_many failed''), w)"
  "failing_delete_many env (DeleteOne collection query) w = env (DeleteOne collection query) w"
  "failing_delete_many env (CourseInit course) w = env (CourseInit course) w"
  "failing_delete_many env (GetQuestionLibraryCollection course) w = env (GetQuestionLibraryCollection course) w"
  by (simp_all add: failing_delete_many_def)

lemma example_ObjectId: "ObjectId (PStr example_id) = Inr (PObjectId example_id)"
  by (simp add: example_id_def is_hex_def is_space_def lower_char_def)

lemma show_small [simp]: "n < 10 \<Longrightarrow> show_nat n = [digit_char n]"
  by (simp add: show_nat.simps)

lemma store_env_UpdateOne [simp]:
  "store_env library roster (UpdateOne collection query update_data) w =
     (Inr (PDict [(''matched_count'', PInt (if list_ex (matches query) (w collection) then 1 else 0))]),
      w(collection := update_first (matches query) (\<lambda>doc. dict_update doc update_data) (w collection)))"
  by (simp add: store_env_def)

section \<open>Deleting an assessment\<close>

lemma delete_body_not_found:
  assumes "ObjectId assessment_id = Inr oid"
    and "env (DeleteOne (PStr (assesment_type @ ''_db'')) [(''_id'', oid)]) w = (Inr result, w')"
    and "py_getitem result ''deleted_count'' = Inr (PInt 0)"
  shows "delete_assessment_body env assessment_id course assesment_type (w, tr) =
    (Inl (HTTPException 404 ''Assessment not found''),
     (w', tr @ [LogMessage 409, LogMessage 416,
                DeleteOne (PStr (assesment_type @ ''_db'')) [(''_id'', oid)], LogMessage 420]))"
  using assms
  by (simp add: delete_assessment_body_def make_ObjectId_Inr bind_perform_Inr)

lemma delete_grades_raises:
  assumes "env (DeleteMany (PStr (py_str collection_name @ ''_'' @ assesment_type @ ''_db''))
                [(''assessment_id'', assessment_id), (''course_id'', course)]) w = (Inl e, w')"
  shows "delete_grades env assessment_id course assesment_type collection_name result (w, tr) =
    (Inr result, (w', tr @ [LogMessage 433,
       DeleteMany (PStr (py_str collection_name @ ''_'' @ assesment_type @ ''_db''))
                [(''assessment_id'', assessment_id), (''course_id'', course)], LogMessage 443]))"
  using assms by (simp add: delete_grades_def try_except_def bind_perform_Inl)

lemma delete_grades_returns:
  assumes "env (DeleteMany (PStr (py_str collection_name @ ''_'' @ assesment_type @ ''_db''))
                [(''assessment_id'', assessment_id), (''course_id'', course)]) w = (Inr result', w')"
    and "py_getitem result' ''deleted_count'' = Inr n"
  shows "delete_grades env assessment_id course assesment_type collection_name result (w, tr) =
    (Inr result', (w', tr @ [LogMessage 433,
       DeleteMany (PStr (py_str collection_name @ ''_'' @ assesment_type @ ''_db''))
                [(''assessment_id'', assessment_id), (''course_id'', course)], LogMessage 441]))"
  using assms by (simp add: delete_grades_def try_except_def bind_perform_Inr)

lemma delete_body_found:
  assumes "ObjectId assessment_id = Inr oid"
    and "env (DeleteOne (PStr (assesment_type @ ''_db'')) [(''_id'', oid)]) w = (Inr result, w1)"
    and "py_getitem result ''deleted_count'' = Inr n" and "n \<noteq> PInt 0"
    and "env (CourseInit course) w1 = (Inr x, w2)"
    and "env (GetQuestionLibraryCollection course) w2 = (Inr collection_name, w3)"
  shows "delete_assessment_body env assessment_id course assesment_type (w, tr) =
    bind (delete_grades env assessment_id course assesment_type collection_name result) (\<lambda>result.
     bind (lift (py_getitem result ''deleted_count'')) (\<lambda>deleted_count.
     ret (PDict [(''status'', PStr ''success''), (''message'',
       PStr (''Assessment and associated '' @ py_str deleted_count
                   @ '' student grade documents deleted successfully''))])))
     (w3, tr @ [LogMessage 409, LogMessage 416,
                DeleteOne (PStr (assesment_type @ ''_db'')) [(''_id'', oid)], LogMessage 423,
                LogMessage 426, CourseInit course, LogMessage 428, GetQuestionLibraryCollection course])"
  using assms
  by (simp add: delete_assessment_body_def make_ObjectId_Inr bind_perform_Inr)


lemma collections_differ:
  "PStr (assesment_type @ ''_db'') \<noteq> PStr (name @ ''_'' @ assesment_type @ ''_db'')"
proof
  assume "PStr (assesment_type @ ''_db'') = PStr (name @ ''_'' @ assesment_type @ ''_db'')"
  then have "length (assesment_type @ ''_db'') = length (name @ ''_'' @ assesment_type @ ''_db'')"
    by simp
  then show False by simp
qed

lemma delete_assessment_grades_failed:
  assumes "ObjectId assessment_id = Inr oid"
    and "env (DeleteOne (PStr (assesment_type @ ''_db'')) [(''_id'', oid)]) w = (Inr result, w1)"
    and "py_getitem result ''deleted_count'' = Inr n" and "n \<noteq> PInt 0"
    and "env (CourseInit course) w1 = (Inr x, w2)"
    and "env (GetQuestionLibraryCollection course) w2 = (Inr collection_name, w3)"
    and "env (DeleteMany (PStr (py_str collection_name @ ''_'' @ assesment_type @ ''_db''))
                [(''assessment_id'', assessment_id), (''course_id'', course)]) w3 = (Inl e, w4)"
  shows "fst (delete_assessment env assessment_id course assesment_type (w, tr)) =
     Inr (PDict [(''status'', PStr ''success''), (''message'', PStr (''Assessment and associated '' @ py_str n
                   @ '' student grade documents deleted successfully''))])"
proof -
  have body: "delete_assessment_body env assessment_id course assesment_type (w, tr) =
    bind (delete_grades env assessment_id course assesment_type collection_name result) (\<lambda>result.
     bind (lift (py_getitem result ''deleted_count'')) (\<lambda>deleted_count.
     ret (PDict [(''status'', PStr ''success''), (''message'',
       PStr (''Assessment and associated '' @ py_str deleted_count
                   @ '' student grade documents deleted successfully''))])))
     (w3, tr @ [LogMessage 409, LogMessage 416,
                DeleteOne (PStr (assesment_type @ ''_db'')) [(''_id'', oid)], LogMessage 423,
                LogMessage 426, CourseInit course, LogMessage 428, GetQuestionLibraryCollection course])"
    using assms(1-6) by (rule delete_body_found)
  have grades: "delete_grades env assessment_id course assesment_type collection_name result
      (w3, tr @ [LogMessage 409, LogMessage 416,
                DeleteOne (PStr (assesment_type @ ''_db'')) [(''_id'', oid)], LogMessage 423,
                LogMessage 426, CourseInit course, LogMessage 428, GetQuestionLibraryCollection course]) =
    (Inr result, (w4, (tr @ [LogMessage 409, LogMessage 416,
                DeleteOne (PStr (assesment_type @ ''_db'')) [(''_id'', oid)], LogMessage 423,
                LogMessage 426, CourseInit course, LogMessage 428, GetQuestionLibraryCollection course])
       @ [LogMessage 433,
       DeleteMany (PStr (py_str collection_name @ ''_'' @ assesment_type @ ''_db''))
                [(''assessment_id'', assessment_id), (''course_id'', course)], LogMessage 443]))"
    using assms(7) by (rule delete_grades_raises)
  show ?thesis
    unfolding delete_assessment_def
    by (simp add: try_except_def body bind_def grades assms(3))
qed

text \<open>
  C7.  When \<^verbatim>\<open>delete_one\<close> on the assessment collection reports zero deleted
  documents, \<^verbatim>\<open>delete_assessment\<close> raises the 404 \<^verbatim>\<open>Assessment not found\<close>.  The
  calls it has made by then are the ones listed: the \<^verbatim>\<open>delete_one\<close> and four log
  messages, and no \<^verbatim>\<open>delete_many\<close> on the grade collection (nor any call of the
  course helper).  This holds for every collaborator \<open>env\<close>.
\<close>

theorem delete_assessment_not_found:
  assumes "ObjectId assessment_id = Inr oid"
    and "env (DeleteOne (PStr (assesment_type @ ''_db'')) [(''_id'', oid)]) w = (Inr result, w')"
    and "py_getitem result ''deleted_count'' = Inr (PInt 0)"
  shows "delete_assessment env assessment_id course assesment_type (w, tr) =
    (Inl (HTTPException 404 ''Assessment not found''),
     (w', tr @ [LogMessage 409, LogMessage 416,
                DeleteOne (PStr (assesment_type @ ''_db'')) [(''_id'', oid)], LogMessage 420,
                LogMessage 451]))"
proof -
  have body: "delete_assessment_body env assessment_id course assesment_type (w, tr) =
    (Inl (HTTPException 404 ''Assessment not found''),
     (w', tr @ [LogMessage 409, LogMessage 416,
                DeleteOne (PStr (assesment_type @ ''_db'')) [(''_id'', oid)], LogMessage 420]))"
    using assms by (rule delete_body_not_found)
  show ?thesis
    unfolding delete_assessment_def by (simp add: try_except_def body)
qed

theorem delete_assessment_not_found_witness:
  "ObjectId (PStr example_id) = Inr (PObjectId example_id)
   \<and> example_env (DeleteOne (PStr (''exam'' @ ''_db'')) [(''_id'', PObjectId example_id)]) example_store
       = (Inr (deleted_count 0), example_store)
   \<and> py_getitem (deleted_count 0) ''deleted_count'' = Inr (PInt 0)
   \<and> delete_assessment example_env (PStr example_id) (PStr ''math'') ''exam'' (example_store, []) =
       (Inl (HTTPException 404 ''Assessment not found''),
        (example_store, [LogMessage 409, LogMessage 416,
           DeleteOne (PStr (''exam'' @ ''_db'')) [(''_id'', PObjectId example_id)],
           LogMessage 420, LogMessage 451]))"
proof -
  have h1: "ObjectId (PStr example_id) = Inr (PObjectId example_id)"
    by (rule example_ObjectId)
  have h2: "example_env (DeleteOne (PStr (''exam'' @ ''_db'')) [(''_id'', PObjectId example_id)]) example_store
       = (Inr (deleted_count 0), example_store)"
    by (auto simp: example_env_def example_store_def fun_eq_iff)
  have h3: "py_getitem (deleted_count 0) ''deleted_count'' = Inr (PInt 0)"
    by (simp add: deleted_count_def getitem_def)
  from delete_assessment_not_found [of "PStr example_id" "PObjectId example_id" example_env
      "''exam''" example_store "deleted_count 0" example_store "PStr ''math''" "[]", OF h1 h2 h3]
    h1 h2 h3
  show ?thesis by simp
qed

lemma delete_assessment_on_store:
  assumes "ObjectId assessment_id = Inr oid"
    and "list_ex (matches [(''_id'', oid)]) (w (PStr (assesment_type @ ''_db'')))"
  shows "delete_assessment (store_env library roster) assessment_id course assesment_type (w, tr) =
    (Inr (PDict [(''status'', PStr ''success''), (''message'', PStr (''Assessment and associated ''
        @ show_int (int (length (filter
            (matches [(''assessment_id'', assessment_id), (''course_id'', course)])
            (w (PStr (py_str (library course) @ ''_'' @ assesment_type @ ''_db''))))))
        @ '' student grade documents deleted successfully''))]),
     (w(PStr (assesment_type @ ''_db'') :=
          remove_first (matches [(''_id'', oid)]) (w (PStr (assesment_type @ ''_db''))),
        PStr (py_str (library course) @ ''_'' @ assesment_type @ ''_db'') :=
          filter (\<lambda>doc. \<not> matches [(''assessment_id'', assessment_id), (''course_id'', course)] doc)
            (w (PStr (py_str (library course) @ ''_'' @ assesment_type @ ''_db'')))),
      tr @ [LogMessage 409, LogMessage 416,
            DeleteOne (PStr (assesment_type @ ''_db'')) [(''_id'', oid)],
            LogMessage 423, LogMessage 426, CourseInit course, LogMessage 428,
            GetQuestionLibraryCollection course, LogMessage 433,
            DeleteMany (PStr (py_str (library course) @ ''_'' @ assesment_type @ ''_db''))
              [(''assessment_id'', assessment_id), (''course_id'', course)],
            LogMessage 441]))"
proof -
  let ?env = "store_env library roster"
  let ?A = "PStr (assesment_type @ ''_db'')"
  let ?G = "PStr (py_str (library course) @ ''_'' @ assesment_type @ ''_db'')"
  let ?w1 = "w(?A := remove_first (matches [(''_id'', oid)]) (w ?A))"
  have neq: "?A \<noteq> ?G" by (rule collections_differ)
  have body: "delete_assessment_body ?env assessment_id course assesment_type (w, tr) =
    bind (delete_grades ?env assessment_id course assesment_type (library course) (deleted_count 1)) (\<lambda>result.
     bind (lift (py_getitem result ''deleted_count'')) (\<lambda>deleted_count.
     ret (PDict [(''status'', PStr ''success''), (''message'',
       PStr (''Assessment and associated '' @ py_str deleted_count
                   @ '' student grade documents deleted successfully''))])))
     (?w1, tr @ [LogMessage 409, LogMessage 416,
                DeleteOne ?A [(''_id'', oid)], LogMessage 423,
                LogMessage 426, CourseInit course, LogMessage 428, GetQuestionLibraryCollection course])"
    by (rule delete_body_found [where n = "PInt 1" and x = PNone and ?w2.0 = ?w1])
       (use assms in simp_all)
  show ?thesis
    unfolding delete_assessment_def
    using neq
    by (simp add: try_except_def body bind_def delete_grades_returns [where n = "PInt (int (length (filter
            (matches [(''assessment_id'', assessment_id), (''course_id'', course)])
            (w ?G))))"] )
qed

text \<open>
  C9, as amended.  On the document store, deleting an assessment that exists, when
  nothing fails: the handler removes the document with the identifier from the
  assessment collection and, from the grade collection of the course of the request,
  every record whose \<^verbatim>\<open>assessment_id\<close> and \<^verbatim>\<open>course_id\<close> are the identifier and the
  course as the request gives them, and no other; the message reports \<open>N\<close>, the number
  of these records.
\<close>

theorem delete_assessment_reports_removed_grades:
  assumes "ObjectId assessment_id = Inr oid"
    and "list_ex (matches [(''_id'', oid)]) (w (PStr (assesment_type @ ''_db'')))"
  shows "delete_assessment (store_env library roster) assessment_id course assesment_type (w, tr) =
    (Inr (PDict [(''status'', PStr ''success''), (''message'', PStr (''Assessment and associated ''
        @ show_int (int (length (filter
            (matches [(''assessment_id'', assessment_id), (''course_id'', course)])
            (w (PStr (py_str (library course) @ ''_'' @ assesment_type @ ''_db''))))))
        @ '' student grade documents deleted successfully''))]),
     (w(PStr (assesment_type @ ''_db'') :=
          remove_first (matches [(''_id'', oid)]) (w (PStr (assesment_type @ ''_db''))),
        PStr (py_str (library course) @ ''_'' @ assesment_type @ ''_db'') :=
          filter (\<lambda>doc. \<not> matches [(''assessment_id'', assessment_id), (''course_id'', course)] doc)
            (w (PStr (py_str (library course) @ ''_'' @ assesment_type @ ''_db'')))),
      tr @ [LogMessage 409, LogMessage 416,
            DeleteOne (PStr (assesment_type @ ''_db'')) [(''_id'', oid)],
            LogMessage 423, LogMessage 426, CourseInit course, LogMessage 428,
            GetQuestionLibraryCollection course, LogMessage 433,
            DeleteMany (PStr (py_str (library course) @ ''_'' @ assesment_type @ ''_db''))
              [(''assessment_id'', assessment_id), (''course_id'', course)],
            LogMessage 441]))"
  using assms by (rule delete_assessment_on_store)

theorem delete_assessment_reports_removed_grades_witness:
  "ObjectId (PStr example_id) = Inr (PObjectId example_id)
   \<and> list_ex (matches [(''_id'', PObjectId example_id)]) (example_store (PStr (''quiz'' @ ''_db'')))
   \<and> fst (delete_assessment example_env (PStr example_id) (PStr ''math'') ''quiz'' (example_store, [])) =
       Inr (PDict [(''status'', PStr ''success''), (''message'',
       PStr ''Assessment and associated 2 student grade documents deleted successfully'')])
   \<and> fst (snd (delete_assessment example_env (PStr example_id) (PStr ''math'') ''quiz''
         (example_store, []))) (PStr ''quiz_db'') = []
   \<and> fst (snd (delete_assessment example_env (PStr example_id) (PStr ''math'') ''quiz''
         (example_store, []))) (PStr ''math_quiz_db'') =
       [[(''_id'', PObjectId ''65f0a1b2c3d4e5f6000000b2''), (''assessment_id'', PStr ''other''),
         (''course_id'', PStr ''math''), (''student_id'', PStr ''s1''), (''marks'', PInt 3),
         (''status'', PStr ''graded'')]]"
proof -
  have h1: "ObjectId (PStr example_id) = Inr (PObjectId example_id)"
    by (rule example_ObjectId)
  have h2: "list_ex (matches [(''_id'', PObjectId example_id)]) (example_store (PStr (''quiz'' @ ''_db'')))"
    by (simp add: example_store_def matches_def)
  have n: "length (filter (matches [(''assessment_id'', PStr example_id), (''course_id'', PStr ''math'')])
             (example_store (PStr (py_str (example_library (PStr ''math'')) @ ''_'' @ ''quiz'' @ ''_db'')))) = 2"
    by (simp add: example_store_def example_library_def matches_def example_id_def)
  note run = delete_assessment_reports_removed_grades [of "PStr example_id" "PObjectId example_id"
      example_store "''quiz''" example_library example_roster "PStr ''math''" "[]", OF h1 h2,
      unfolded n, folded example_env_def]
  have "fst (delete_assessment example_env (PStr example_id) (PStr ''math'') ''quiz'' (example_store, [])) =
       Inr (PDict [(''status'', PStr ''success''), (''message'',
       PStr ''Assessment and associated 2 student grade documents deleted successfully'')])"
    unfolding run by (simp add: show_int_def digit_char_def)
  moreover have "fst (snd (delete_assessment example_env (PStr example_id) (PStr ''math'') ''quiz''
         (example_store, []))) (PStr ''quiz_db'') = []"
    unfolding run by (simp add: example_store_def example_library_def matches_def)
  moreover have "fst (snd (delete_assessment example_env (PStr example_id) (PStr ''math'') ''quiz''
         (example_store, []))) (PStr ''math_quiz_db'') =
       [[(''_id'', PObjectId ''65f0a1b2c3d4e5f6000000b2''), (''assessment_id'', PStr ''other''),
         (''course_id'', PStr ''math''), (''student_id'', PStr ''s1''), (''marks'', PInt 3),
         (''status'', PStr ''graded'')]]"
    unfolding run by (simp add: example_store_def example_library_def matches_def example_id_def)
  ultimately show ?thesis using h1 h2 by simp
qed

text \<open>
  C9 as stated fails.  The quiz exists and has two grade records, stored under the
  identifier in lower case and the course \<^verbatim>\<open>math\<close>.  A request that gives the
  identifier in upper case deletes the quiz (\<^verbatim>\<open>ObjectId\<close> reads both cases), then
  looks for grade records with the upper-case text: none matches, the message reports
  0 and the two records stay.  The same happens to a request that names another
  course than the one of the assessment.
\<close>

theorem delete_assessment_leaves_grades:
  "fst (delete_assessment example_env (PStr ''65F0A1B2C3D4E5F601234567'') (PStr ''math'') ''quiz''
         (example_store, [])) =
     Inr (PDict [(''status'', PStr ''success''), (''message'',
       PStr ''Assessment and associated 0 student grade documents deleted successfully'')])
   \<and> fst (snd (delete_assessment example_env (PStr ''65F0A1B2C3D4E5F601234567'') (PStr ''math'')
         ''quiz'' (example_store, []))) (PStr ''quiz_db'') = []
   \<and> filter (matches [(''assessment_id'', PStr example_id), (''course_id'', PStr ''math'')])
       (fst (snd (delete_assessment example_env (PStr ''65F0A1B2C3D4E5F601234567'') (PStr ''math'')
         ''quiz'' (example_store, []))) (PStr ''math_quiz_db'')) = quiz_grades
   \<and> fst (delete_assessment example_env (PStr example_id) (PStr ''physics'') ''quiz''
         (example_store, [])) =
     Inr (PDict [(''status'', PStr ''success''), (''message'',
       PStr ''Assessment and associated 0 student grade documents deleted successfully'')])
   \<and> fst (snd (delete_assessment example_env (PStr example_id) (PStr ''physics'') ''quiz''
         (example_store, []))) (PStr ''quiz_db'') = []
   \<and> filter (matches [(''assessment_id'', PStr example_id), (''course_id'', PStr ''math'')])
       (fst (snd (delete_assessment example_env (PStr example_id) (PStr ''physics'') ''quiz''
         (example_store, []))) (PStr ''math_quiz_db'')) = quiz_grades"
proof -
  have up: "ObjectId (PStr ''65F0A1B2C3D4E5F601234567'') = Inr (PObjectId example_id)"
    by code_simp
  have h2: "list_ex (matches [(''_id'', PObjectId example_id)]) (example_store (PStr (''quiz'' @ ''_db'')))"
    by (simp add: example_store_def matches_def)
  note upper = delete_assessment_on_store [of "PStr ''65F0A1B2C3D4E5F601234567''"
      "PObjectId example_id" example_store "''quiz''" example_library example_roster "PStr ''math''"
      "[]", OF up h2, folded example_env_def]
  note other = delete_assessment_on_store [of "PStr example_id"
      "PObjectId example_id" example_store "''quiz''" example_library example_roster
      "PStr ''physics''" "[]", OF example_ObjectId h2, folded example_env_def]
  show ?thesis
    unfolding upper other
    by (simp add: example_store_def example_library_def matches_def example_id_def
        quiz_grades_def show_int_def digit_char_def)
qed

text \<open>
  C2.  The claim is that the message reports 0 removed grade records when the deletion
  of the grade records raises.  On the code it does not: \<^verbatim>\<open>result\<close> still holds what
  \<^verbatim>\<open>delete_one\<close> returned, whose count is not 0 (a count of 0 has raised the 404
  before), and the message reports that count.  Here the store holds the quiz,
  \<^verbatim>\<open>delete_many\<close> raises, the handler returns success, and the message says that 1
  grade record was deleted.
\<close>

theorem delete_assessment_stale_count:
  "fst (delete_assessment (failing_delete_many example_env) (PStr example_id) (PStr ''math'') ''quiz''
         (example_store, [])) =
     Inr (PDict [(''status'', PStr ''success''), (''message'',
       PStr ''Assessment and associated 1 student grade documents deleted successfully'')])"
proof -
  have h2: "list_ex (matches [(''_id'', PObjectId example_id)]) (example_store (PStr (''quiz'' @ ''_db'')))"
    by (simp add: example_store_def matches_def)
  have "fst (delete_assessment (failing_delete_many example_env) (PStr example_id) (PStr ''math'') ''quiz''
         (example_store, [])) =
     Inr (PDict [(''status'', PStr ''success''), (''message'', PStr (''Assessment and associated '' @ py_str (PInt 1)
                   @ '' student grade documents deleted successfully''))])"
    by (rule delete_assessment_grades_failed [where oid = "PObjectId example_id"
          and result = "deleted_count 1" and x = PNone and collection_name = "PStr ''math''"])
       (use h2 in \<open>simp_all add: example_ObjectId example_env_def example_library_def del: ObjectId.simps\<close>)
  then show ?thesis by (simp add: show_int_def digit_char_def)
qed


section \<open>Creating, listing and editing\<close>

text \<open>
  C6.  A payload whose top-level list of sections is empty is refused with the 400
  \<^verbatim>\<open>Assessment must contain at least one question\<close>.  The state of the world is
  unchanged and the only call is the first log message: neither the renderer nor
  \<^verbatim>\<open>insert_one\<close> is called.
\<close>

theorem create_assessment_empty_questions:
  assumes "questions_of assessment = []"
  shows "create_assessment env assessment assesment_type (w, tr) =
    (Inl (HTTPException 400 ''Assessment must contain at least one question''),
     (w, tr @ [LogMessage 39]))"
  using assms
  by (simp add: create_assessment_def create_assessment_body_def try_except_def)

theorem create_assessment_empty_questions_witness:
  "questions_of empty_assessment = []
   \<and> create_assessment example_env empty_assessment ''quiz'' (example_store, []) =
       (Inl (HTTPException 400 ''Assessment must contain at least one question''),
        (example_store, [LogMessage 39]))"
  using create_assessment_empty_questions [of empty_assessment example_env "''quiz''" example_store "[]"]
  by (simp add: empty_assessment_def)

lemma truthy_dict_keys: "k \<in> set (dict_keys d) \<Longrightarrow> truthy (PDict d)"
  by (cases d) (simp_all add: dict_keys_def)

text \<open>
  C4.  When the \<^verbatim>\<open>filters\<close> of the request hold a key that is not
  \<^verbatim>\<open>course_id\<close>, \<^verbatim>\<open>year\<close> or \<^verbatim>\<open>month\<close>, \<^verbatim>\<open>list_assessments\<close> raises a 400 that
  names the keys outside the list.  The only call made is the first log message: the
  query generator and the aggregation are not reached.
\<close>

theorem list_assessments_invalid_filter:
  assumes "map_of assessment_filter ''filters'' = Some (PDict filters)"
    and "k \<in> set (dict_keys filters)" and "k \<notin> set valid_filters"
  shows "list_assessments env assessment_filter assesment_type (w, tr) =
    (Inl (HTTPException 400 (''Invalid filter name(s): '' @
            join '', '' (filter (\<lambda>f. f \<notin> set valid_filters) (dict_keys filters)))),
     (w, tr @ [LogMessage 110]))"
proof -
  have "k \<in> set (filter (\<lambda>f. f \<notin> set valid_filters) (dict_keys filters))"
    using assms(2,3) by simp
  then have ne: "filter (\<lambda>f. f \<notin> set valid_filters) (dict_keys filters) \<noteq> []"
    by (metis empty_iff empty_set)
  have chk: "check_filters assessment_filter (w, tr @ [LogMessage 110]) =
    (Inl (HTTPException 400 (''Invalid filter name(s): '' @
            join '', '' (filter (\<lambda>f. f \<notin> set valid_filters) (dict_keys filters)))),
     (w, tr @ [LogMessage 110]))"
    using assms(1) ne truthy_dict_keys [OF assms(2)]
    by (simp add: check_filters_def)
  show ?thesis
    by (simp add: list_assessments_def list_assessments_body_def try_except_def bind_def chk)
qed

theorem list_assessments_invalid_filter_witness:
  "map_of [(''filters'', PDict [(''course_id'', PStr ''math''), (''teacher'', PStr ''T''), (''day'', PInt 3)])]
      ''filters'' = Some (PDict [(''course_id'', PStr ''math''), (''teacher'', PStr ''T''), (''day'', PInt 3)])
   \<and> ''teacher'' \<in> set (dict_keys [(''course_id'', PStr ''math''), (''teacher'', PStr ''T''), (''day'', PInt 3)])
   \<and> ''teacher'' \<notin> set valid_filters
   \<and> list_assessments example_env
        [(''filters'', PDict [(''course_id'', PStr ''math''), (''teacher'', PStr ''T''), (''day'', PInt 3)])]
        ''quiz'' (example_store, []) =
      (Inl (HTTPException 400 ''Invalid filter name(s): teacher, day''), (example_store, [LogMessage 110]))"
  using list_assessments_invalid_filter [of
      "[(''filters'', PDict [(''course_id'', PStr ''math''), (''teacher'', PStr ''T''), (''day'', PInt 3)])]"
      "[(''course_id'', PStr ''math''), (''teacher'', PStr ''T''), (''day'', PInt 3)]"
      "''teacher''" example_env "''quiz''" example_store "[]"]
  by (simp add: dict_keys_def valid_filters_def)

text \<open>
  C8.  When the clock and the renderer return and the identifier is a well-formed
  \<^verbatim>\<open>ObjectId\<close>, \<^verbatim>\<open>edit_assessment\<close> calls the clock, the renderer and
  \<^verbatim>\<open>update_one\<close>, and nothing else: no \<^verbatim>\<open>find\<close> or \<^verbatim>\<open>find_one\<close> looks for the
  document first.  \<^verbatim>\<open>update_one\<close> is called on the collection of the assessment type
  with the query \<^verbatim>\<open>{'_id': ObjectId(assessment_id)}\<close> and the whole document: the
  seven fields of the payload, its sections with their questions, the time of the
  clock and the new question paper.  Whatever \<^verbatim>\<open>update_one\<close> returns (\<open>stat\<close> is
  arbitrary, so also a report of no matched document), the answer is
  \<^verbatim>\<open>{'status': 'success', 'assessment_id': assessment_id}\<close> with the submitted
  identifier.
\<close>

theorem edit_assessment_no_existence_check:
  assumes "env UtcNow w = (Inr now, w1)"
    and "env (GenerateAssessmentDocument assesment_type (assessment_id_of assessment) (Inr assessment)) w1
           = (Inr question_paper, w2)"
    and "ObjectId (assessment_id_of assessment) = Inr obj_id"
    and "env (UpdateOne (PStr (assesment_type @ ''_db'')) [(''_id'', obj_id)]
              [(''name'', name_of assessment),
               (''course'', course_of assessment),
               (''start_date'', start_date_of assessment),
               (''end_date'', end_date_of assessment),
               (''total_time'', total_time_of assessment),
               (''total_marks'', total_marks_of assessment),
               (''lessons'', lessons_of assessment),
               (''questions'', PList (map (\<lambda>section. PDict
                  [(''section_name'', section_name_of section),
                   (''description'', description_of section),
                   (''questions'', PList (map (\<lambda>question. PDict
                      [(''question_id'', question_id_of question),
                       (''question_latex'', question_latex_of question),
                       (''marks'', marks_of question)])
                      (questions_of_section section)))])
                  (questions_of assessment))),
               (''last_updated'', now),
               (''question_paper'', question_paper)]) w2
           = (Inr stat, w3)"
  shows "edit_assessment env assessment assesment_type (w, tr) =
    (Inr (PDict [(''status'', PStr ''success''), (''assessment_id'', assessment_id_of assessment)]),
     (w3, tr @ [LogMessage 242, UtcNow,
        GenerateAssessmentDocument assesment_type (assessment_id_of assessment) (Inr assessment),
        UpdateOne (PStr (assesment_type @ ''_db'')) [(''_id'', obj_id)]
              [(''name'', name_of assessment),
               (''course'', course_of assessment),
               (''start_date'', start_date_of assessment),
               (''end_date'', end_date_of assessment),
               (''total_time'', total_time_of assessment),
               (''total_marks'', total_marks_of assessment),
               (''lessons'', lessons_of assessment),
               (''questions'', PList (map (\<lambda>section. PDict
                  [(''section_name'', section_name_of section),
                   (''description'', description_of section),
                   (''questions'', PList (map (\<lambda>question. PDict
                      [(''question_id'', question_id_of question),
                       (''question_latex'', question_latex_of question),
                       (''marks'', marks_of question)])
                      (questions_of_section section)))])
                  (questions_of assessment))),
               (''last_updated'', now),
               (''question_paper'', question_paper)]]))"
  using assms
  by (simp add: edit_assessment_def edit_assessment_body_def try_except_def bind_def perform_def
      make_ObjectId_Inr assessment_dict_def section_dict_def [abs_def] question_dict_def [abs_def])

lemma rendering_simps [simp]:
  "rendering env UtcNow w = (Inr (PInt 1700000000), w)"
  "rendering env (GenerateAssessmentDocument assesment_type assessment_id assessment) w =
     (Inr (PStr (''papers/'' @ py_str assessment_id @ ''.pdf'')), w)"
  "rendering env (UpdateOne collection query update_data) w = env (UpdateOne collection query update_data) w"
  by (simp_all add: rendering_def)

theorem edit_assessment_no_existence_check_witness:
  "rendering example_env UtcNow example_store = (Inr (PInt 1700000000), example_store)
   \<and> rendering example_env
         (GenerateAssessmentDocument ''exam'' (assessment_id_of example_edit) (Inr example_edit))
         example_store = (Inr (PStr ''papers/65f0a1b2c3d4e5f601234567.pdf''), example_store)
   \<and> ObjectId (assessment_id_of example_edit) = Inr (PObjectId example_id)
   \<and> rendering example_env (UpdateOne (PStr (''exam'' @ ''_db'')) [(''_id'', PObjectId example_id)]
              [(''name'', PStr ''Exam 1''),
               (''course'', PStr ''math''),
               (''start_date'', PNone),
               (''end_date'', PNone),
               (''total_time'', PInt 90),
               (''total_marks'', PInt 5),
               (''lessons'', PList []),
               (''questions'', PList [PDict
                  [(''section_name'', PStr ''A''),
                   (''description'', PStr ''algebra''),
                   (''questions'', PList [PDict
                      [(''question_id'', PStr ''65f0a1b2c3d4e5f6000000aa''),
                       (''question_latex'', PStr ''x''),
                       (''marks'', PInt 5)]])]]),
               (''last_updated'', PInt 1700000000),
               (''question_paper'', PStr ''papers/65f0a1b2c3d4e5f601234567.pdf'')]) example_store
       = (Inr (PDict [(''matched_count'', PInt 0)]), example_store)
   \<and> edit_assessment (rendering example_env) example_edit ''exam'' (example_store, []) =
       (Inr (PDict [(''status'', PStr ''success''), (''assessment_id'', PStr example_id)]),
        (example_store, [LogMessage 242, UtcNow,
           GenerateAssessmentDocument ''exam'' (PStr example_id) (Inr example_edit),
           UpdateOne (PStr ''exam_db'') [(''_id'', PObjectId example_id)]
              [(''name'', PStr ''Exam 1''),
               (''course'', PStr ''math''),
               (''start_date'', PNone),
               (''end_date'', PNone),
               (''total_time'', PInt 90),
               (''total_marks'', PInt 5),
               (''lessons'', PList []),
               (''questions'', PList [PDict
                  [(''section_name'', PStr ''A''),
                   (''description'', PStr ''algebra''),
                   (''questions'', PList [PDict
                      [(''question_id'', PStr ''65f0a1b2c3d4e5f6000000aa''),
                       (''question_latex'', PStr ''x''),
                       (''marks'', PInt 5)]])]]),
               (''last_updated'', PInt 1700000000),
               (''question_paper'', PStr ''papers/65f0a1b2c3d4e5f601234567.pdf'')]]))"
proof -
  let ?env = "rendering example_env"
  have e: "assessment_id_of example_edit = PStr example_id" "name_of example_edit = PStr ''Exam 1''"
    "course_of example_edit = PStr ''math''" "start_date_of example_edit = PNone"
    "end_date_of example_edit = PNone" "total_time_of example_edit = PInt 90"
    "total_marks_of example_edit = PInt 5" "lessons_of example_edit = PList []"
    "questions_of example_edit = [\<lparr>section_name_of = PStr ''A'', description_of = PStr ''algebra'',
         questions_of_section = [\<lparr>question_id_of = PStr ''65f0a1b2c3d4e5f6000000aa'',
            question_latex_of = PStr ''x'', marks_of = PInt 5\<rparr>]\<rparr>]"
    by (simp_all add: example_edit_def)
  have h1: "?env UtcNow example_store = (Inr (PInt 1700000000), example_store)"
    by simp
  have h2: "?env (GenerateAssessmentDocument ''exam'' (assessment_id_of example_edit) (Inr example_edit))
         example_store = (Inr (PStr ''papers/65f0a1b2c3d4e5f601234567.pdf''), example_store)"
    by (simp add: e example_id_def)
  have h3: "ObjectId (assessment_id_of example_edit) = Inr (PObjectId example_id)"
    by (simp add: e example_ObjectId del: ObjectId.simps)
  have h4: "?env (UpdateOne (PStr (''exam'' @ ''_db'')) [(''_id'', PObjectId example_id)]
              [(''name'', PStr ''Exam 1''),
               (''course'', PStr ''math''),
               (''start_date'', PNone),
               (''end_date'', PNone),
               (''total_time'', PInt 90),
               (''total_marks'', PInt 5),
               (''lessons'', PList []),
               (''questions'', PList [PDict
                  [(''section_name'', PStr ''A''),
                   (''description'', PStr ''algebra''),
                   (''questions'', PList [PDict
                      [(''question_id'', PStr ''65f0a1b2c3d4e5f6000000aa''),
                       (''question_latex'', PStr ''x''),
                       (''marks'', PInt 5)]])]]),
               (''last_updated'', PInt 1700000000),
               (''question_paper'', PStr ''papers/65f0a1b2c3d4e5f601234567.pdf'')]) example_store
       = (Inr (PDict [(''matched_count'', PInt 0)]), example_store)"
    by (auto simp: example_env_def example_store_def fun_eq_iff)
  from edit_assessment_no_existence_check [of ?env example_store "PInt 1700000000" example_store
      "''exam''" example_edit "PStr ''papers/65f0a1b2c3d4e5f601234567.pdf''" example_store
      "PObjectId example_id" "PDict [(''matched_count'', PInt 0)]" example_store "[]"]
    h1 h2 h3 h4
  show ?thesis by (simp add: e)
qed

section \<open>The grades of the students\<close>

lemma bindE_Inr [simp]: "bindE (Inr x) f = f x"
  by (simp add: bindE_def)

lemma bindE_Inl [simp]: "bindE (Inl e) f = Inl e"
  by (simp add: bindE_def)

lemma map_of_dict_set: "map_of (dict_set d k v) k' = (if k' = k then Some v else map_of d k')"
  by (induction d) auto

lemma dict_set_keys: "fst ` set (dict_set d k v) = insert k (fst ` set d)"
proof (induction d)
  case Nil
  then show ?case by simp
next
  case (Cons kv d)
  then show ?case by (cases kv) (simp add: insert_commute)
qed

lemma dict_set_fresh: "k \<notin> fst ` set d \<Longrightarrow> dict_set d k v = d @ [(k, v)]"
  by (induction d) auto

lemma map_of_dict_update_other:
  "k \<notin> fst ` set e \<Longrightarrow> map_of (dict_update d e) k = map_of d k"
  by (induction e arbitrary: d) (auto simp: map_of_dict_set)

lemma map_of_dict_del: "map_of (dict_del d k) k' = (if k' = k then None else map_of d k')"
  by (induction d) (auto simp: dict_del_def)

lemma placeholder_marks:
  "map_of (placeholder_dict assessment_id course entry) ''marks'' = Some PNone"
  "map_of (placeholder_dict assessment_id course entry) ''status'' = Some PNone"
  by (simp_all add: placeholder_dict_def map_of_dict_set)

lemma placeholder_ids:
  "''assessment_id'' \<notin> set (dict_keys entry) \<Longrightarrow>
     map_of (placeholder_dict assessment_id course entry) ''assessment_id'' = Some assessment_id"
  "''course_id'' \<notin> set (dict_keys entry) \<Longrightarrow>
     map_of (placeholder_dict assessment_id course entry) ''course_id'' = Some course"
  by (simp_all add: placeholder_dict_def map_of_dict_set map_of_dict_update_other dict_keys_def)

lemma build_students_mapping_ok:
  "list_all roster_ok roster \<Longrightarrow>
     \<exists>m. build_students_mapping (map PDict roster) acc = Inr m"
proof (induction roster arbitrary: acc)
  case Nil
  then show ?case by simp
next
  case (Cons entry roster)
  then show ?case
    by (auto simp: roster_ok_def student_id_of_def getitem_def split: option.splits)
qed

lemma mapE_placeholder:
  "mapE (placeholder assessment_id course) (map PDict roster) =
     Inr (map (\<lambda>entry. PDict (placeholder_dict assessment_id course entry)) roster)"
  by (induction roster) (simp_all add: placeholder_def)

lemma student_grades_none:
  assumes "env (CourseInit course) w = (Inr x, w1)"
    and "env (GetQuestionLibraryCollection course) w1 = (Inr collection_name, w2)"
    and "env (GetCourseStudents course) w2 = (Inr (PList (map PDict roster)), w3)"
    and "list_all roster_ok roster"
    and "env (Find (PStr (py_str collection_name @ ''_'' @ assesment_type @ ''_db''))
             [(''assessment_id'', assessment_id), (''course_id'', course)]) w3 = (Inr student_grades, w4)"
    and "\<not> truthy student_grades"
  shows "fst (get_assessment_student_grades env assessment_id course assesment_type (w, tr)) =
     Inr (PDict [(''status'', PStr ''success''), (''data'',
       PList (map (\<lambda>entry. PDict (placeholder_dict assessment_id course entry)) roster))])"
proof -
  obtain m where m: "build_students_mapping (map PDict roster) [] = Inr m"
    using build_students_mapping_ok [OF assms(4)] by blast
  show ?thesis
    using assms(1,2,3,5,6) m
    by (simp add: get_assessment_student_grades_def get_assessment_student_grades_body_def
        try_except_def bind_def perform_def mapE_placeholder)
qed


lemma map_of_dict_update:
  "distinct (map fst e) \<Longrightarrow>
     map_of (dict_update d e) k = (case map_of e k of Some v \<Rightarrow> Some v | None \<Rightarrow> map_of d k)"
proof (induction e arbitrary: d)
  case Nil
  then show ?case by simp
next
  case (Cons kv e)
  obtain k1 v1 where kv: "kv = (k1, v1)" by (cases kv)
  from Cons.prems kv have "map_of e k1 = None"
    by (simp add: map_of_eq_None_iff)
  with Cons kv show ?case
    by (auto simp: map_of_dict_set split: option.splits)
qed

lemma placeholder_student_id:
  "roster_ok entry \<Longrightarrow>
     student_id_of (placeholder_dict assessment_id course entry) = student_id_of entry"
  by (auto simp: roster_ok_def student_id_of_def placeholder_dict_def map_of_dict_set
      map_of_dict_update dict_keys_def split: option.splits)

lemma build_students_mapping_distinct:
  "list_all roster_ok roster \<Longrightarrow> distinct (map student_id_of roster) \<Longrightarrow>
   set (map student_id_of roster) \<inter> Some ` fst ` set acc = {} \<Longrightarrow>
   build_students_mapping (map PDict roster) acc =
     Inr (acc @ map (\<lambda>entry. (the (student_id_of entry), PDict entry)) roster)"
proof (induction roster arbitrary: acc)
  case Nil
  then show ?case by simp
next
  case (Cons entry roster)
  from Cons.prems(1) obtain sid where sid: "student_id_of entry = Some sid" "hashable sid"
    by (auto simp: roster_ok_def split: option.splits)
  from Cons.prems(3) sid have fresh: "sid \<notin> fst ` set acc" by auto
  have disj: "set (map student_id_of roster) \<inter> Some ` fst ` set (dict_set acc sid (PDict entry)) = {}"
    using Cons.prems(2,3) sid by (auto simp: dict_set_keys)
  have "build_students_mapping (map PDict roster) (dict_set acc sid (PDict entry)) =
     Inr (dict_set acc sid (PDict entry) @ map (\<lambda>entry. (the (student_id_of entry), PDict entry)) roster)"
    using Cons.prems(1,2) disj by (intro Cons.IH) simp_all
  then show ?case
    using sid fresh by (simp add: student_id_of_def getitem_def dict_set_fresh)
qed

lemma strip_grades_ok:
  "list_all grade_ok grades \<Longrightarrow>
   strip_grades (map PDict grades) m =
     Inr (map (\<lambda>grade. PDict (dict_del grade ''_id'')) grades,
          filter (\<lambda>kv. Some (fst kv) \<notin> set (map student_id_of grades)) m)"
proof (induction grades arbitrary: m)
  case Nil
  then show ?case by simp
next
  case (Cons grade grades)
  from Cons.prems obtain oid sid where g: "map_of grade ''_id'' = Some oid"
      "student_id_of grade = Some sid" "hashable sid"
    by (auto simp: grade_ok_def split: option.splits)
  have ih: "strip_grades (map PDict grades) (dict_del m sid) =
     Inr (map (\<lambda>grade. PDict (dict_del grade ''_id'')) grades,
          filter (\<lambda>kv. Some (fst kv) \<notin> set (map student_id_of grades)) (dict_del m sid))"
    using Cons.prems by (intro Cons.IH) simp
  have flt: "filter (\<lambda>kv. Some (fst kv) \<notin> set (map student_id_of grades)) (dict_del m sid) =
     filter (\<lambda>kv. Some (fst kv) \<notin> set (map student_id_of (grade # grades))) m"
    using g(2) by (auto simp: dict_del_def intro: filter_cong)
  show ?case
    using g ih flt
    by (simp add: pop_def getitem_def student_id_of_def map_of_dict_del)
qed

lemma mapE_placeholder_left:
  "mapE (\<lambda>(missing_student, student). placeholder assessment_id course student)
      (map (\<lambda>entry. (key entry, PDict entry)) roster) =
     Inr (map (\<lambda>entry. PDict (placeholder_dict assessment_id course entry)) roster)"
  by (induction roster) (simp_all add: placeholder_def)

lemma student_grades_merge:
  assumes "env (CourseInit course) w = (Inr x, w1)"
    and "env (GetQuestionLibraryCollection course) w1 = (Inr collection_name, w2)"
    and "env (GetCourseStudents course) w2 = (Inr (PList (map PDict roster)), w3)"
    and "list_all roster_ok roster" and "distinct (map student_id_of roster)"
    and "env (Find (PStr (py_str collection_name @ ''_'' @ assesment_type @ ''_db''))
             [(''assessment_id'', assessment_id), (''course_id'', course)]) w3
           = (Inr (PList (map PDict grades)), w4)"
    and "grades \<noteq> []" and "list_all grade_ok grades"
  shows "fst (get_assessment_student_grades env assessment_id course assesment_type (w, tr)) =
     Inr (PDict [(''status'', PStr ''success''), (''data'',
       PList (map (\<lambda>grade. PDict (dict_del grade ''_id'')) grades @
               map (\<lambda>entry. PDict (placeholder_dict assessment_id course entry))
                 (filter (\<lambda>entry. student_id_of entry \<notin> set (map student_id_of grades)) roster)))])"
proof -
  have m: "build_students_mapping (map PDict roster) [] =
     Inr (map (\<lambda>entry. (the (student_id_of entry), PDict entry)) roster)"
    using build_students_mapping_distinct [OF assms(4,5), of "[]"] by simp
  have some: "\<And>entry. entry \<in> set roster \<Longrightarrow> Some (the (student_id_of entry)) = student_id_of entry"
    using assms(4) by (auto simp: list_all_iff roster_ok_def split: option.splits)
  have left: "filter (\<lambda>kv. Some (fst kv) \<notin> student_id_of ` set grades)
        (map (\<lambda>entry. (the (student_id_of entry), PDict entry)) roster) =
      map (\<lambda>entry. (the (student_id_of entry), PDict entry))
        (filter (\<lambda>entry. student_id_of entry \<notin> student_id_of ` set grades) roster)"
  proof -
    have "filter ((\<lambda>kv. Some (fst kv) \<notin> student_id_of ` set grades) \<circ>
            (\<lambda>entry. (the (student_id_of entry), PDict entry))) roster =
          filter (\<lambda>entry. student_id_of entry \<notin> student_id_of ` set grades) roster"
      by (rule filter_cong) (simp_all add: some)
    then show ?thesis by (simp add: filter_map)
  qed
  show ?thesis
    using assms(1,2,3,6,7) m
    by (simp add: get_assessment_student_grades_def get_assessment_student_grades_body_def
        try_except_def bind_def perform_def strip_grades_ok [OF assms(8)] left
        mapE_placeholder_left)
qed

lemma ungraded_count:
  assumes "distinct (map f roster)" and "distinct (map g grades)"
    and "set (map g grades) \<subseteq> set (map f roster)"
  shows "length grades + length (filter (\<lambda>entry. f entry \<notin> set (map g grades)) roster) = length roster"
proof -
  let ?G = "set (map g grades)"
  have "length (filter (\<lambda>entry. f entry \<in> ?G) roster) = length (filter (\<lambda>r. r \<in> ?G) (map f roster))"
    by (simp add: filter_map comp_def)
  also have "\<dots> = card (set (filter (\<lambda>r. r \<in> ?G) (map f roster)))"
  proof -
    have "distinct (filter (\<lambda>r. r \<in> ?G) (map f roster))"
      using assms(1) by (rule distinct_filter)
    then show ?thesis by (rule distinct_card [symmetric])
  qed
  also have "set (filter (\<lambda>r. r \<in> ?G) (map f roster)) = ?G"
    using assms(3) by auto
  also have "card ?G = length grades"
    using assms(2) by (metis distinct_card length_map)
  finally have "length (filter (\<lambda>entry. f entry \<in> ?G) roster) = length grades" .
  moreover have "length (filter (\<lambda>entry. f entry \<in> ?G) roster)
      + length (filter (\<lambda>entry. f entry \<notin> ?G) roster) = length roster"
    using sum_length_filter_compl [of "\<lambda>entry. f entry \<in> ?G" roster] by simp
  ultimately show ?thesis by simp
qed


lemma student_id_of_dict_del: "student_id_of (dict_del grade ''_id'') = student_id_of grade"
  by (simp add: student_id_of_def map_of_dict_del)

lemma expected_grades_ids:
  assumes "list_all roster_ok roster"
  shows "map student_id_of (expected_grades assessment_id course roster grades) =
     map student_id_of grades @
     filter (\<lambda>sid. sid \<notin> set (map student_id_of grades)) (map student_id_of roster)"
proof -
  have "map (\<lambda>entry. student_id_of (placeholder_dict assessment_id course entry))
          (filter (\<lambda>entry. student_id_of entry \<notin> set (map student_id_of grades)) roster) =
        map student_id_of
          (filter (\<lambda>entry. student_id_of entry \<notin> set (map student_id_of grades)) roster)"
    using assms by (intro map_cong) (auto simp: list_all_iff placeholder_student_id)
  then show ?thesis
    by (simp add: expected_grades_def dict_del_def [symmetric] student_id_of_dict_del filter_map
        comp_def)
qed

lemma find_quiz_grades:
  "store_env library roster (Find (PStr (py_str (PStr ''math'') @ ''_'' @ ''quiz'' @ ''_db''))
         [(''assessment_id'', PStr example_id), (''course_id'', PStr ''math'')]) example_store
       = (Inr (PList (map PDict quiz_grades)), example_store)"
  by (simp add: example_store_def quiz_grades_def matches_def example_id_def)

lemma quiz_grades_ok: "quiz_grades \<noteq> []" "list_all grade_ok quiz_grades"
  "map student_id_of quiz_grades = [Some (PStr ''s1''), Some (PStr ''s2'')]"
  by (simp_all add: quiz_grades_def grade_ok_def student_id_of_def)

lemma math_roster_ok: "list_all roster_ok math_roster"
  "map student_id_of math_roster = [Some (PStr ''s1''), Some (PStr ''s2''), Some (PStr ''s3'')]"
  by (simp_all add: math_roster_def roster_ok_def student_id_of_def dict_keys_def)

lemma for_each_pure:
  assumes "\<And>x s. \<exists>s'. g x s = (f x, s')"
  shows "\<exists>s'. for_each xs g s = (mapE f xs, s')"
proof (induction xs arbitrary: s)
  case Nil
  then show ?case by simp
next
  case (Cons x xs)
  obtain s1 where g: "g x s = (f x, s1)" using assms by blast
  obtain s2 where ih: "for_each xs g s1 = (mapE f xs, s2)" using Cons.IH by blast
  show ?case
    using g ih by (cases "f x"; cases "mapE f xs") (simp_all add: bind_def)
qed

lemma for_each_log:
  "\<exists>s'. for_each xs (\<lambda>x. bind (log_message n) (\<lambda>_. lift (f x))) s = (mapE f xs, s')"
  by (rule for_each_pure) auto

lemma merge_section_pure:
  "\<exists>s'. merge_section questions_data_map section s = (merged_section questions_data_map section, s')"
proof -
  obtain w tr where s: "s = (w, tr)" by (cases s)
  show ?thesis
  proof (cases "py_getitem section ''questions''")
    case (Inl e)
    then show ?thesis by (simp add: s merge_section_def merged_section_def)
  next
    case (Inr stubs)
    show ?thesis
    proof (cases "py_iter stubs")
      case (Inl e)
      with Inr show ?thesis by (simp add: s merge_section_def merged_section_def)
    next
      case qs: (Inr qs)
      obtain s' where fe: "for_each qs (\<lambda>question.
            bind (log_message 213) (\<lambda>_. lift (merge_question questions_data_map question)))
            (w, tr @ [LogMessage 211]) = (mapE (merge_question questions_data_map) qs, s')"
        using for_each_log by blast
      show ?thesis
        using Inr qs fe
        by (cases "mapE (merge_question questions_data_map) qs")
           (simp_all add: s merge_section_def merged_section_def bind_def)
    qed
  qed
qed

lemma merge_sections_pure:
  "\<exists>s'. merge_sections questions_data_map assessment_data s =
     (merged_assessment questions_data_map assessment_data, s')"
proof (cases "py_getitem assessment_data ''questions''")
  case (Inl e)
  then show ?thesis by (simp add: merge_sections_def merged_assessment_def bind_def)
next
  case (Inr secs)
  show ?thesis
  proof (cases "py_iter secs")
    case (Inl e)
    with Inr show ?thesis by (simp add: merge_sections_def merged_assessment_def bind_def)
  next
    case sections: (Inr sections)
    obtain s' where fe: "for_each sections (merge_section questions_data_map) s =
        (mapE (merged_section questions_data_map) sections, s')"
      using for_each_pure [of "merge_section questions_data_map" "merged_section questions_data_map"]
        merge_section_pure by blast
    show ?thesis
      using Inr sections fe
      by (cases "mapE (merged_section questions_data_map) sections")
         (simp_all add: merge_sections_def merged_assessment_def bind_def)
  qed
qed

lemma is_http_simps [simp]:
  "is_http (HTTPException code detail)" "\<not> is_http (KeyError v)" "\<not> is_http TypeError"
  "\<not> is_http AttributeError" "\<not> is_http InvalidId" "\<not> is_http (CollaboratorError msg)"
  by (simp_all add: is_http_def)

lemma py_getitem_not_http: "py_getitem v k = Inl e \<Longrightarrow> \<not> is_http e"
  by (cases v) (auto simp: getitem_def split: option.splits)

lemma py_iter_not_http: "py_iter v = Inl e \<Longrightarrow> \<not> is_http e"
  by (cases v) auto

lemma py_setitem_not_http: "py_setitem v k x = Inl e \<Longrightarrow> \<not> is_http e"
  by (cases v) auto

lemma py_update_not_http: "py_update v x = Inl e \<Longrightarrow> \<not> is_http e"
  by (cases v; cases x) auto

lemma lookup_question_not_http: "lookup_question m key = Inl e \<Longrightarrow> \<not> is_http e"
  by (cases key) (auto simp: getitem_def split: option.splits)

lemma bindE_Inl_iff:
  "bindE r f = Inl e \<longleftrightarrow> r = Inl e \<or> (\<exists>x. r = Inr x \<and> f x = Inl e)"
  by (cases r) simp_all

lemma merge_question_not_http: "merge_question m question = Inl e \<Longrightarrow> \<not> is_http e"
  unfolding merge_question_def bindE_Inl_iff
  by (auto dest: py_getitem_not_http lookup_question_not_http py_update_not_http py_setitem_not_http)

lemma mapE_not_http:
  "(\<And>x e. f x = Inl e \<Longrightarrow> \<not> is_http e) \<Longrightarrow> mapE f xs = Inl e \<Longrightarrow> \<not> is_http e"
  by (induction xs arbitrary: e) (auto simp: bindE_Inl_iff)

lemma merged_section_not_http: "merged_section m section = Inl e \<Longrightarrow> \<not> is_http e"
  unfolding merged_section_def bindE_Inl_iff
  by (auto dest: py_getitem_not_http py_iter_not_http py_setitem_not_http
      mapE_not_http [OF merge_question_not_http, rotated])

lemma merged_assessment_not_http: "merged_assessment m assessment_data = Inl e \<Longrightarrow> \<not> is_http e"
  unfolding merged_assessment_def bindE_Inl_iff
  by (auto dest: py_getitem_not_http py_iter_not_http py_setitem_not_http
      mapE_not_http [OF merged_section_not_http, rotated])

lemma details_after_fetch:
  assumes "fetch_questions env assessment_id assesment_type s
             = (Inr (assessment_data, questions_data_map), s1)"
  shows "fst (get_assessment_details env assessment_id assesment_type s) =
     (case merged_assessment questions_data_map assessment_data of
        Inl e \<Rightarrow> Inl (HTTPException 500 ''Internal server error'')
      | Inr merged \<Rightarrow> Inr (PDict [(''status'', PStr ''success''), (''data'', merged)]))"
proof -
  obtain w1 tr1 where s1: "s1 = (w1, tr1)" by (cases s1)
  obtain s2 where ms: "merge_sections questions_data_map assessment_data (w1, tr1 @ [LogMessage 208])
      = (merged_assessment questions_data_map assessment_data, s2)"
    using merge_sections_pure by blast
  obtain w2 tr2 where s2: "s2 = (w2, tr2)" by (cases s2)
  show ?thesis
  proof (cases "merged_assessment questions_data_map assessment_data")
    case (Inl e)
    then have "\<not> is_http e" by (rule merged_assessment_not_http)
    then show ?thesis
      using assms ms Inl
      by (cases e)
         (simp_all add: get_assessment_details_def get_assessment_details_body_def
            try_except_def bind_def s1 s2)
  next
    case (Inr merged)
    then show ?thesis
      using assms ms
      by (simp add: get_assessment_details_def get_assessment_details_body_def
            try_except_def bind_def s1 s2)
  qed
qed

lemma mapE_fails: "x \<in> set xs \<Longrightarrow> f x = Inl e \<Longrightarrow> \<exists>e'. mapE f xs = Inl e'"
proof (induction xs)
  case Nil
  then show ?case by simp
next
  case (Cons y ys)
  then show ?case
    by (cases "f y"; cases "mapE f ys") auto
qed

lemma questions_in_eq:
  "py_getitem v ''questions'' = Inr stubs \<Longrightarrow> py_iter stubs = Inr qs \<Longrightarrow> questions_in v = qs"
  by (simp add: questions_in_def)

lemma questions_in_cases:
  assumes "x \<in> set (questions_in v)"
  obtains stubs qs where "py_getitem v ''questions'' = Inr stubs" "py_iter stubs = Inr qs" "x \<in> set qs"
proof (cases "py_getitem v ''questions''")
  case (Inl e)
  with assms show ?thesis by (simp add: questions_in_def)
next
  case (Inr stubs)
  with assms that show ?thesis
    by (cases "py_iter stubs") (simp_all add: questions_in_def)
qed

lemma lookup_question_missing:
  "key \<notin> PStr ` set (dict_keys questions_data_map) \<Longrightarrow>
     lookup_question questions_data_map key = Inl (if hashable key then KeyError key else TypeError)"
proof (cases key)
  case (PStr k)
  assume "key \<notin> PStr ` set (dict_keys questions_data_map)"
  with PStr have "k \<notin> fst ` set questions_data_map" by (auto simp: dict_keys_def)
  then have "map_of questions_data_map k = None" by (simp add: map_of_eq_None_iff)
  with PStr show ?thesis by (simp add: getitem_def)
qed simp_all

section \<open>The details of an assessment\<close>

text \<open>
  C5.  The assessment exists and the questions have been fetched:
  \<open>fetch_questions\<close> has returned the assessment and the lookup table.  When some
  question stub of some section has a \<^verbatim>\<open>question_id\<close> that is not a key of the
  table, the lookup of line 214 raises \<^verbatim>\<open>KeyError\<close> (\<^verbatim>\<open>TypeError\<close> for a key that
  cannot be hashed), not an \<^verbatim>\<open>HTTPException\<close>, and the handler ends with the 500
  \<^verbatim>\<open>Internal server error\<close>; it returns no partial result.
\<close>

theorem details_missing_question:
  assumes "fetch_questions env assessment_id assesment_type s
             = (Inr (assessment_data, questions_data_map), s1)"
    and "section \<in> set (questions_in assessment_data)"
    and "stub \<in> set (questions_in section)"
    and "py_getitem stub ''question_id'' = Inr key"
    and "key \<notin> PStr ` set (dict_keys questions_data_map)"
  shows "lookup_question questions_data_map key = Inl (if hashable key then KeyError key else TypeError)
     \<and> fst (get_assessment_details env assessment_id assesment_type s) =
         Inl (HTTPException 500 ''Internal server error'')"
proof -
  have lk: "lookup_question questions_data_map key = Inl (if hashable key then KeyError key else TypeError)"
    using assms(5) by (rule lookup_question_missing)
  have mq: "merge_question questions_data_map stub = Inl (if hashable key then KeyError key else TypeError)"
    using assms(4) lk by (simp add: merge_question_def)
  obtain stubs qs where q: "py_getitem section ''questions'' = Inr stubs"
      "py_iter stubs = Inr qs" "stub \<in> set qs"
    using assms(3) by (rule questions_in_cases)
  from mapE_fails [of stub qs "merge_question questions_data_map", OF q(3) mq]
  obtain e1 where "mapE (merge_question questions_data_map) qs = Inl e1" ..
  with q have ms: "merged_section questions_data_map section = Inl e1"
    by (simp add: merged_section_def)
  obtain secs sections where sec: "py_getitem assessment_data ''questions'' = Inr secs"
      "py_iter secs = Inr sections" "section \<in> set sections"
    using assms(2) by (rule questions_in_cases)
  from mapE_fails [of "section" sections "merged_section questions_data_map", OF sec(3) ms]
  obtain e2 where "mapE (merged_section questions_data_map) sections = Inl e2" ..
  with sec have "merged_assessment questions_data_map assessment_data = Inl e2"
    by (simp add: merged_assessment_def)
  with details_after_fetch [OF assms(1)] lk show ?thesis by simp
qed

lemma bind_perform [simp]:
  "bind (perform env c) f (w, tr) =
     (case env c w of (Inl e, w') \<Rightarrow> (Inl e, (w', tr @ [c])) | (Inr x, w') \<Rightarrow> f x (w', tr @ [c]))"
  by (simp add: bind_def perform_def split: prod.splits sum.splits)

lemma fetch_quiz:
  "fst (fetch_questions example_env (PStr example_id) ''quiz'' (example_store, [])) =
     Inr (quiz_data, quiz_library)"
  unfolding fetch_questions_def collect_question_ids_def example_env_def
  by (simp add: make_ObjectId_def example_id_def example_store_def matches_def is_hex_def is_space_def
      lower_char_def pop_def getitem_def dict_del_def example_library_def
      quiz_data_def quiz_library_def)

lemma fetch_quiz_empty_library:
  "fst (fetch_questions example_env (PStr example_id) ''quiz'' (empty_library_store, [])) =
     Inr (quiz_data, [])"
  unfolding fetch_questions_def collect_question_ids_def example_env_def
  by (simp add: make_ObjectId_def example_id_def example_store_def matches_def is_hex_def is_space_def
      lower_char_def pop_def getitem_def dict_del_def example_library_def
      quiz_data_def empty_library_store_def)

theorem details_missing_question_witness:
  "fetch_questions example_env (PStr example_id) ''quiz'' (empty_library_store, []) =
     (Inr (quiz_data, []),
      snd (fetch_questions example_env (PStr example_id) ''quiz'' (empty_library_store, [])))
   \<and> quiz_section \<in> set (questions_in quiz_data)
   \<and> quiz_stub \<in> set (questions_in quiz_section)
   \<and> py_getitem quiz_stub ''question_id'' = Inr (PStr ''65f0a1b2c3d4e5f6000000aa'')
   \<and> PStr ''65f0a1b2c3d4e5f6000000aa'' \<notin> PStr ` set (dict_keys ([] :: pydict))
   \<and> fst (get_assessment_details example_env (PStr example_id) ''quiz'' (empty_library_store, [])) =
         Inl (HTTPException 500 ''Internal server error'')"
proof -
  have h1: "fetch_questions example_env (PStr example_id) ''quiz'' (empty_library_store, []) =
     (Inr (quiz_data, []),
      snd (fetch_questions example_env (PStr example_id) ''quiz'' (empty_library_store, [])))"
    using fetch_quiz_empty_library by (metis prod.collapse)
  have h2: "quiz_section \<in> set (questions_in quiz_data)"
    by (simp add: questions_in_def quiz_data_def quiz_section_def quiz_stub_def getitem_def)
  have h3: "quiz_stub \<in> set (questions_in quiz_section)"
    by (simp add: questions_in_def quiz_section_def getitem_def)
  have h4: "py_getitem quiz_stub ''question_id'' = Inr (PStr ''65f0a1b2c3d4e5f6000000aa'')"
    by (simp add: quiz_stub_def getitem_def)
  have h5: "PStr ''65f0a1b2c3d4e5f6000000aa'' \<notin> PStr ` set (dict_keys ([] :: pydict))"
    by (simp add: dict_keys_def)
  from details_missing_question [of example_env "PStr example_id" "''quiz''"
      "(empty_library_store, [])" quiz_data "[]"
      "snd (fetch_questions example_env (PStr example_id) ''quiz'' (empty_library_store, []))"
      quiz_section quiz_stub "PStr ''65f0a1b2c3d4e5f6000000aa''", OF h1 h2 h3 h4 h5]
    h1 h2 h3 h4 h5
  show ?thesis by blast
qed

lemma mapE_list_all2: "mapE f xs = Inr ys \<Longrightarrow> list_all2 (\<lambda>x y. f x = Inr y) xs ys"
proof (induction xs arbitrary: ys)
  case Nil
  then show ?case by simp
next
  case (Cons x xs)
  then show ?case
    by (cases "f x"; cases "mapE f xs") auto
qed

lemma iter_rebuild:
  assumes "py_iter v = Inr xs" and "mapE f xs = Inr ys" and "\<And>k. f (PStr k) = Inl TypeError"
  shows "py_iter (rebuild v ys) = Inr ys"
proof -
  have none: "xs = [] \<Longrightarrow> ys = []" using assms(2) by simp
  have strs: "\<And>k ks. xs \<noteq> PStr k # ks"
  proof
    fix k ks assume "xs = PStr k # ks"
    with assms(2,3) show False by simp
  qed
  show ?thesis
  proof (cases v)
    case (PList zs)
    then show ?thesis by simp
  next
    case (PDict d)
    with assms(1) have xs: "xs = map (\<lambda>kv. PStr (fst kv)) d" by simp
    with strs have "d = []" by (cases d) auto
    with PDict xs none show ?thesis by simp
  next
    case (PStr k)
    with assms(1) have xs: "xs = map (\<lambda>c. PStr [c]) k" by simp
    with strs have "k = []" by (cases k) auto
    with PStr xs none show ?thesis by simp
  qed (use assms(1) in simp_all)
qed

lemma merge_question_PStr: "merge_question m (PStr k) = Inl TypeError"
  by (simp add: merge_question_def)

lemma merged_section_PStr: "merged_section m (PStr k) = Inl TypeError"
  by (simp add: merged_section_def)

lemma bindE_Inr_iff: "bindE r f = Inr y \<longleftrightarrow> (\<exists>x. r = Inr x \<and> f x = Inr y)"
  by (cases r) simp_all

lemma py_setitem_Inr: "py_setitem v k x = Inr v' \<Longrightarrow> \<exists>d. v = PDict d \<and> v' = PDict (dict_set d k x)"
  by (cases v) auto

lemma questions_in_setitem:
  assumes "py_iter v = Inr xs" and "mapE f xs = Inr ys" and "\<And>k. f (PStr k) = Inl TypeError"
    and "py_setitem parent ''questions'' (rebuild v ys) = Inr parent'"
  shows "questions_in parent' = ys"
proof -
  from assms(4) obtain d where "parent' = PDict (dict_set d ''questions'' (rebuild v ys))"
    using py_setitem_Inr by blast
  then show ?thesis
    using iter_rebuild [OF assms(1,2,3)]
    by (simp add: questions_in_def getitem_def map_of_dict_set)
qed

lemma merged_section_questions:
  assumes "merged_section m sec = Inr sec'"
  shows "list_all2 (\<lambda>q q'. merge_question m q = Inr q') (questions_in sec) (questions_in sec')"
proof -
  from assms obtain stubs qs qs' where
    a: "py_getitem sec ''questions'' = Inr stubs" "py_iter stubs = Inr qs"
      "mapE (merge_question m) qs = Inr qs'"
      "py_setitem sec ''questions'' (rebuild stubs qs') = Inr sec'"
    unfolding merged_section_def bindE_Inr_iff by blast
  have "questions_in sec = qs" using a(1,2) by (rule questions_in_eq)
  moreover have "questions_in sec' = qs'"
    using a(2,3) merge_question_PStr a(4) by (rule questions_in_setitem)
  ultimately show ?thesis using mapE_list_all2 [OF a(3)] by simp
qed

lemma merged_assessment_sections:
  assumes "merged_assessment m assessment_data = Inr returned"
  shows "list_all2 (\<lambda>sec sec'. merged_section m sec = Inr sec')
           (questions_in assessment_data) (questions_in returned)"
proof -
  from assms obtain secs sections sections' where
    a: "py_getitem assessment_data ''questions'' = Inr secs" "py_iter secs = Inr sections"
      "mapE (merged_section m) sections = Inr sections'"
      "py_setitem assessment_data ''questions'' (rebuild secs sections') = Inr returned"
    unfolding merged_assessment_def bindE_Inr_iff by blast
  have "questions_in assessment_data = sections" using a(1,2) by (rule questions_in_eq)
  moreover have "questions_in returned = sections'"
    using a(2,3) merged_section_PStr a(4) by (rule questions_in_setitem)
  ultimately show ?thesis using mapE_list_all2 [OF a(3)] by simp
qed

lemma py_update_Inr:
  "py_update v x = Inr u \<Longrightarrow> \<exists>d e. v = PDict d \<and> x = PDict e \<and> u = PDict (dict_update d e)"
  by (cases v; cases x) auto

lemma lookup_question_Inr:
  "lookup_question m key = Inr doc \<Longrightarrow> \<exists>k. key = PStr k \<and> map_of m k = Some doc"
  by (cases key) (auto simp: getitem_def split: option.splits if_splits)

lemma lib_ok_distinct:
  "lib_ok m \<Longrightarrow> map_of m k = Some (PDict lib) \<Longrightarrow> distinct (map fst lib)"
  by (auto simp: lib_ok_def list_all_iff dict_keys_def dest!: map_of_SomeD)

lemma merge_question_merged_from:
  assumes "lib_ok m" and "merge_question m q = Inr q'"
  shows "merged_from m q q'"
proof -
  from assms(2) obtain key question_data question_marks updated where
    a: "py_getitem q ''question_id'' = Inr key" "lookup_question m key = Inr question_data"
      "py_getitem q ''marks'' = Inr question_marks" "py_update q question_data = Inr updated"
      "py_setitem updated ''marks'' question_marks = Inr q'"
    unfolding merge_question_def bindE_Inr_iff by blast
  from a(4) obtain stub lib where u: "q = PDict stub" "question_data = PDict lib"
      "updated = PDict (dict_update stub lib)"
    using py_update_Inr by blast
  from a(2) obtain k where k: "key = PStr k" "map_of m k = Some question_data"
    using lookup_question_Inr by blast
  from a(1) u(1) k(1) have qid: "map_of stub ''question_id'' = Some (PStr k)"
    by (simp add: getitem_def split: option.splits)
  from a(3) u(1) have marks: "map_of stub ''marks'' = Some question_marks"
    by (simp add: getitem_def split: option.splits)
  from a(5) u(3) have q': "q' = PDict (dict_set (dict_update stub lib) ''marks'' question_marks)"
    by simp
  have dist: "distinct (map fst lib)"
    using assms(1) k(2) u(2) lib_ok_distinct by blast
  have "list_all (\<lambda>(field, v). field = ''marks'' \<or>
          map_of (dict_set (dict_update stub lib) ''marks'' question_marks) field = Some v) lib"
  proof -
    have "map_of (dict_update stub lib) field = Some v" if "(field, v) \<in> set lib" for field v
      using dist that by (simp add: map_of_dict_update map_of_is_SomeI)
    then have "field = ''marks'' \<or>
        map_of (dict_set (dict_update stub lib) ''marks'' question_marks) field = Some v"
      if "(field, v) \<in> set lib" for field v
      using that by (cases "field = ''marks''") (simp_all add: map_of_dict_set)
    then show ?thesis
      unfolding list_all_iff by blast
  qed
  then show ?thesis
    using u(1,2) k(2) qid marks q'
    by (simp add: merged_from_def map_of_dict_set)
qed


lemma merged_quiz: "merged_assessment quiz_library quiz_data = Inr quiz_returned"
  by (simp add: merged_assessment_def merged_section_def merge_question_def quiz_library_def
      quiz_data_def quiz_returned_def getitem_def)


subsection \<open>Student grades: the data list\<close>

lemmas run_grades = get_assessment_student_grades_def get_assessment_student_grades_body_def
  try_except_def example_env_def example_library_def example_store_def matches_def example_id_def
  getitem_def pop_def dict_del_def placeholder_def placeholder_dict_def

text \<open>
  The fields of a placeholder: null marks and null status, every field of the roster
  entry with the entry's value, and the \<^verbatim>\<open>assessment_id\<close> and \<^verbatim>\<open>course_id\<close> of the
  request where the roster entry has no field of that name.
\<close>

lemma placeholder_fields:
  assumes "distinct (dict_keys entry)"
  shows "map_of (placeholder_dict assessment_id course entry) k =
     (if k = ''marks'' \<or> k = ''status'' then Some PNone
      else case map_of entry k of
             Some v \<Rightarrow> Some v
           | None \<Rightarrow> if k = ''assessment_id'' then Some assessment_id
                      else if k = ''course_id'' then Some course else None)"
  using assms
  by (simp add: placeholder_dict_def map_of_dict_set map_of_dict_update dict_keys_def
      split: option.splits)

lemma expected_grades_one_per_student:
  assumes "list_all roster_ok roster" and "distinct (map student_id_of roster)"
    and "distinct (map student_id_of grades)"
    and "set (map student_id_of grades) \<subseteq> set (map student_id_of roster)"
  shows "length (expected_grades assessment_id course roster grades) = length roster"
    and "distinct (map student_id_of (expected_grades assessment_id course roster grades))"
    and "set (map student_id_of (expected_grades assessment_id course roster grades)) =
           set (map student_id_of roster)"
proof -
  have "length (expected_grades assessment_id course roster grades) =
      length grades +
      length (filter (\<lambda>entry. student_id_of entry \<notin> set (map student_id_of grades)) roster)"
    by (simp add: expected_grades_def)
  also have "\<dots> = length roster"
    using assms(2,3,4) by (rule ungraded_count)
  finally show "length (expected_grades assessment_id course roster grades) = length roster" .
  show "distinct (map student_id_of (expected_grades assessment_id course roster grades))"
    unfolding expected_grades_ids [OF assms(1)] using assms(2,3) by auto
  show "set (map student_id_of (expected_grades assessment_id course roster grades)) =
           set (map student_id_of roster)"
    unfolding expected_grades_ids [OF assms(1)] using assms(4) by auto
qed

text \<open>
  C10, as amended.  Let the roster of the course be a list of dictionaries (no key twice
  in one entry), every entry with a \<^verbatim>\<open>student_id\<close> that is hashable (neither a list nor
  a dictionary), and let the query for grade records return no records.  Then the handler
  returns the success response whose data list has exactly one placeholder per roster
  entry, in roster order.  Each placeholder has null marks and null status, every other
  field of its roster entry with the entry's value, and the \<^verbatim>\<open>assessment_id\<close> and the
  \<^verbatim>\<open>course_id\<close> of the request unless the roster entry has a field of that name, whose
  value is then kept.  If the roster lists no \<^verbatim>\<open>student_id\<close> twice, no two placeholders
  have the same \<^verbatim>\<open>student_id\<close>: there is exactly one placeholder per roster student.
\<close>

theorem student_grades_placeholders:
  assumes "env (CourseInit course) w = (Inr x, w1)"
    and "env (GetQuestionLibraryCollection course) w1 = (Inr collection_name, w2)"
    and "env (GetCourseStudents course) w2 = (Inr (PList (map PDict roster)), w3)"
    and "list_all roster_ok roster"
    and "env (Find (PStr (py_str collection_name @ ''_'' @ assesment_type @ ''_db''))
             [(''assessment_id'', assessment_id), (''course_id'', course)]) w3 = (Inr student_grades, w4)"
    and "\<not> truthy student_grades"
  shows "fst (get_assessment_student_grades env assessment_id course assesment_type (w, tr)) =
       Inr (PDict [(''status'', PStr ''success''),
                   (''data'', PList (map (\<lambda>entry. PDict (placeholder_dict assessment_id course entry))
                                      roster))])
     \<and> (\<forall>entry \<in> set roster. \<forall>k.
          map_of (placeholder_dict assessment_id course entry) k =
            (if k = ''marks'' \<or> k = ''status'' then Some PNone
             else case map_of entry k of
                    Some v \<Rightarrow> Some v
                  | None \<Rightarrow> if k = ''assessment_id'' then Some assessment_id
                             else if k = ''course_id'' then Some course else None))
     \<and> (distinct (map student_id_of roster) \<longrightarrow>
          distinct (map (\<lambda>entry. student_id_of (placeholder_dict assessment_id course entry)) roster))"
proof -
  have run: "fst (get_assessment_student_grades env assessment_id course assesment_type (w, tr)) =
       Inr (PDict [(''status'', PStr ''success''),
                   (''data'', PList (map (\<lambda>entry. PDict (placeholder_dict assessment_id course entry))
                                      roster))])"
    using assms by (rule student_grades_none)
  have keys: "\<And>entry. entry \<in> set roster \<Longrightarrow> distinct (dict_keys entry)"
    using assms(4) by (simp add: list_all_iff roster_ok_def)
  have ids: "map (\<lambda>entry. student_id_of (placeholder_dict assessment_id course entry)) roster =
      map student_id_of roster"
    using assms(4) by (intro map_cong) (auto simp: list_all_iff placeholder_student_id)
  show ?thesis
    using run keys by (simp add: placeholder_fields ids)
qed

theorem student_grades_placeholders_witness:
  "example_env (CourseInit (PStr ''math'')) example_store = (Inr PNone, example_store)
   \<and> example_env (GetQuestionLibraryCollection (PStr ''math'')) example_store
       = (Inr (PStr ''math''), example_store)
   \<and> example_env (GetCourseStudents (PStr ''math'')) example_store =
       (Inr (PList (map PDict math_roster)), example_store)
   \<and> list_all roster_ok math_roster
   \<and> example_env (Find (PStr (py_str (PStr ''math'') @ ''_'' @ ''exam'' @ ''_db''))
         [(''assessment_id'', PStr example_id), (''course_id'', PStr ''math'')]) example_store
       = (Inr (PList []), example_store)
   \<and> \<not> truthy (PList [])
   \<and> distinct (map student_id_of math_roster)
   \<and> fst (get_assessment_student_grades example_env (PStr example_id) (PStr ''math'') ''exam''
          (example_store, [])) =
       Inr (PDict [(''status'', PStr ''success''), (''data'', PList
         [PDict [(''assessment_id'', PStr example_id), (''course_id'', PStr ''math''),
                 (''student_id'', PStr ''s1''), (''name'', PStr ''Ann''),
                 (''marks'', PNone), (''status'', PNone)],
          PDict [(''assessment_id'', PStr example_id), (''course_id'', PStr ''math''),
                 (''student_id'', PStr ''s2''), (''name'', PStr ''Bob''),
                 (''marks'', PNone), (''status'', PNone)],
          PDict [(''assessment_id'', PStr example_id), (''course_id'', PStr ''math''),
                 (''student_id'', PStr ''s3''), (''name'', PStr ''Cy''),
                 (''marks'', PNone), (''status'', PNone)]])])
   \<and> distinct (map (\<lambda>entry. student_id_of (placeholder_dict (PStr example_id) (PStr ''math'') entry))
         math_roster)"
proof -
  have h1: "example_env (CourseInit (PStr ''math'')) example_store = (Inr PNone, example_store)"
    by (simp add: example_env_def)
  have h2: "example_env (GetQuestionLibraryCollection (PStr ''math'')) example_store
       = (Inr (PStr ''math''), example_store)"
    by (simp add: example_env_def example_library_def)
  have h3: "example_env (GetCourseStudents (PStr ''math'')) example_store =
       (Inr (PList (map PDict math_roster)), example_store)"
    by (simp add: example_env_def example_roster_def math_roster_def)
  have h4: "list_all roster_ok math_roster" by (rule math_roster_ok)
  have h5: "example_env (Find (PStr (py_str (PStr ''math'') @ ''_'' @ ''exam'' @ ''_db''))
         [(''assessment_id'', PStr example_id), (''course_id'', PStr ''math'')]) example_store
       = (Inr (PList []), example_store)"
    by (simp add: example_env_def example_store_def)
  have h6: "\<not> truthy (PList [])" by simp
  have h7: "distinct (map student_id_of math_roster)" by (simp add: math_roster_ok)
  note inst = student_grades_placeholders [of example_env "PStr ''math''" example_store PNone
      example_store "PStr ''math''" example_store math_roster example_store "''exam''"
      "PStr example_id" "PList []" example_store "[]", OF h1 h2 h3 h4 h5 h6]
  have run: "fst (get_assessment_student_grades example_env (PStr example_id) (PStr ''math'') ''exam''
          (example_store, [])) =
       Inr (PDict [(''status'', PStr ''success''),
          (''data'', PList (map (\<lambda>entry. PDict (placeholder_dict (PStr example_id) (PStr ''math'') entry))
             math_roster))])"
    using inst by (rule conjunct1)
  have dist: "distinct (map (\<lambda>entry. student_id_of (placeholder_dict (PStr example_id) (PStr ''math'') entry))
         math_roster)"
    using inst h7 by blast
  have "fst (get_assessment_student_grades example_env (PStr example_id) (PStr ''math'') ''exam''
          (example_store, [])) =
       Inr (PDict [(''status'', PStr ''success''), (''data'', PList
         [PDict [(''assessment_id'', PStr example_id), (''course_id'', PStr ''math''),
                 (''student_id'', PStr ''s1''), (''name'', PStr ''Ann''),
                 (''marks'', PNone), (''status'', PNone)],
          PDict [(''assessment_id'', PStr example_id), (''course_id'', PStr ''math''),
                 (''student_id'', PStr ''s2''), (''name'', PStr ''Bob''),
                 (''marks'', PNone), (''status'', PNone)],
          PDict [(''assessment_id'', PStr example_id), (''course_id'', PStr ''math''),
                 (''student_id'', PStr ''s3''), (''name'', PStr ''Cy''),
                 (''marks'', PNone), (''status'', PNone)]])])"
    unfolding run by (simp add: math_roster_def placeholder_dict_def)
  with h1 h2 h3 h4 h5 h6 h7 dist show ?thesis by blast
qed

text \<open>
  C10 as stated fails.  The placeholder of a roster entry that has a \<^verbatim>\<open>course_id\<close> of
  its own carries that course and not the course of the request (first run: the request
  is for \<^verbatim>\<open>math\<close>, the placeholder says \<^verbatim>\<open>physics\<close>).  A roster that lists student
  \<^verbatim>\<open>s3\<close> twice gives two placeholders for \<^verbatim>\<open>s3\<close> (second run).  A roster entry without
  \<^verbatim>\<open>student_id\<close>, or with a list as \<^verbatim>\<open>student_id\<close>, gives the 500 of the handler and no
  placeholder at all (third and fourth run).
\<close>

theorem student_grades_placeholder_keeps_roster_course:
  "fst (get_assessment_student_grades (store_env example_library transfer_roster)
          (PStr example_id) (PStr ''math'') ''exam'' (example_store, [])) =
     Inr (PDict [(''status'', PStr ''success''), (''data'', PList
       [PDict [(''assessment_id'', PStr example_id), (''course_id'', PStr ''physics''),
               (''student_id'', PStr ''s9''), (''marks'', PNone), (''status'', PNone)]])])
   \<and> fst (get_assessment_student_grades (store_env example_library double_roster)
          (PStr example_id) (PStr ''math'') ''exam'' (example_store, [])) =
     Inr (PDict [(''status'', PStr ''success''), (''data'', PList
       [PDict [(''assessment_id'', PStr example_id), (''course_id'', PStr ''math''),
               (''student_id'', PStr ''s1''), (''name'', PStr ''Ann''),
               (''marks'', PNone), (''status'', PNone)],
        PDict [(''assessment_id'', PStr example_id), (''course_id'', PStr ''math''),
               (''student_id'', PStr ''s3''), (''name'', PStr ''Cy''),
               (''marks'', PNone), (''status'', PNone)],
        PDict [(''assessment_id'', PStr example_id), (''course_id'', PStr ''math''),
               (''student_id'', PStr ''s3''), (''name'', PStr ''Cyril''),
               (''marks'', PNone), (''status'', PNone)]])])
   \<and> fst (get_assessment_student_grades (store_env example_library anonymous_roster)
          (PStr example_id) (PStr ''math'') ''exam'' (example_store, [])) =
     Inl (HTTPException 500 ''Failed to fetch student grades'')
   \<and> fst (get_assessment_student_grades (store_env example_library listed_roster)
          (PStr example_id) (PStr ''math'') ''exam'' (example_store, [])) =
     Inl (HTTPException 500 ''Failed to fetch student grades'')"
proof -
  have "fst (get_assessment_student_grades (store_env example_library transfer_roster)
          (PStr example_id) (PStr ''math'') ''exam'' (example_store, [])) =
     Inr (PDict [(''status'', PStr ''success''), (''data'', PList
       [PDict [(''assessment_id'', PStr example_id), (''course_id'', PStr ''physics''),
               (''student_id'', PStr ''s9''), (''marks'', PNone), (''status'', PNone)]])])"
    by (simp add: run_grades transfer_roster_def)
  moreover have "fst (get_assessment_student_grades (store_env example_library double_roster)
          (PStr example_id) (PStr ''math'') ''exam'' (example_store, [])) =
     Inr (PDict [(''status'', PStr ''success''), (''data'', PList
       [PDict [(''assessment_id'', PStr example_id), (''course_id'', PStr ''math''),
               (''student_id'', PStr ''s1''), (''name'', PStr ''Ann''),
               (''marks'', PNone), (''status'', PNone)],
        PDict [(''assessment_id'', PStr example_id), (''course_id'', PStr ''math''),
               (''student_id'', PStr ''s3''), (''name'', PStr ''Cy''),
               (''marks'', PNone), (''status'', PNone)],
        PDict [(''assessment_id'', PStr example_id), (''course_id'', PStr ''math''),
               (''student_id'', PStr ''s3''), (''name'', PStr ''Cyril''),
               (''marks'', PNone), (''status'', PNone)]])])"
    by (simp add: run_grades double_roster_def)
  moreover have "fst (get_assessment_student_grades (store_env example_library anonymous_roster)
          (PStr example_id) (PStr ''math'') ''exam'' (example_store, [])) =
     Inl (HTTPException 500 ''Failed to fetch student grades'')"
    by (simp add: run_grades anonymous_roster_def)
  moreover have "fst (get_assessment_student_grades (store_env example_library listed_roster)
          (PStr example_id) (PStr ''math'') ''exam'' (example_store, [])) =
     Inl (HTTPException 500 ''Failed to fetch student grades'')"
    by (simp add: run_grades listed_roster_def)
  ultimately show ?thesis by blast
qed

text \<open>
  C1, as amended.  Let the roster of the course be a list of dictionaries (no key twice
  in one entry), every entry with a hashable \<^verbatim>\<open>student_id\<close> and no \<^verbatim>\<open>student_id\<close> on two
  entries, and let the query for grade records return at least one record, every record
  with an \<^verbatim>\<open>_id\<close> and a hashable \<^verbatim>\<open>student_id\<close>.  Then the handler returns the success
  response whose data list is: every stored record, in stored order, with its \<^verbatim>\<open>_id\<close>
  removed, followed by one placeholder for each roster entry whose \<^verbatim>\<open>student_id\<close> is on
  no stored record, in roster order.  Each placeholder has null marks and null status,
  every other field of its roster entry with the entry's value, and the \<^verbatim>\<open>assessment_id\<close>
  and the \<^verbatim>\<open>course_id\<close> of the request unless the roster entry has a field of that name.
  If moreover no two stored records have the same \<^verbatim>\<open>student_id\<close> and the \<^verbatim>\<open>student_id\<close>
  of every stored record is on the roster, the data list has exactly one entry per roster
  student: its length is the roster size, no \<^verbatim>\<open>student_id\<close> occurs twice in it, and its
  \<^verbatim>\<open>student_id\<close>s are those of the roster.
\<close>

theorem student_grades_one_entry_per_student:
  assumes "env (CourseInit course) w = (Inr x, w1)"
    and "env (GetQuestionLibraryCollection course) w1 = (Inr collection_name, w2)"
    and "env (GetCourseStudents course) w2 = (Inr (PList (map PDict roster)), w3)"
    and "list_all roster_ok roster" and "distinct (map student_id_of roster)"
    and "env (Find (PStr (py_str collection_name @ ''_'' @ assesment_type @ ''_db''))
             [(''assessment_id'', assessment_id), (''course_id'', course)]) w3
           = (Inr (PList (map PDict grades)), w4)"
    and "grades \<noteq> []" and "list_all grade_ok grades"
  shows "fst (get_assessment_student_grades env assessment_id course assesment_type (w, tr)) =
       Inr (PDict [(''status'', PStr ''success''),
                   (''data'', PList (map PDict (expected_grades assessment_id course roster grades)))])
     \<and> expected_grades assessment_id course roster grades =
         map (\<lambda>grade. filter (\<lambda>field. fst field \<noteq> ''_id'') grade) grades @
         map (placeholder_dict assessment_id course)
           (filter (\<lambda>entry. student_id_of entry \<notin> set (map student_id_of grades)) roster)
     \<and> (\<forall>entry \<in> set roster. \<forall>k.
          map_of (placeholder_dict assessment_id course entry) k =
            (if k = ''marks'' \<or> k = ''status'' then Some PNone
             else case map_of entry k of
                    Some v \<Rightarrow> Some v
                  | None \<Rightarrow> if k = ''assessment_id'' then Some assessment_id
                             else if k = ''course_id'' then Some course else None))
     \<and> (distinct (map student_id_of grades)
          \<and> set (map student_id_of grades) \<subseteq> set (map student_id_of roster) \<longrightarrow>
          length (expected_grades assessment_id course roster grades) = length roster
          \<and> distinct (map student_id_of (expected_grades assessment_id course roster grades))
          \<and> set (map student_id_of (expected_grades assessment_id course roster grades)) =
              set (map student_id_of roster))"
proof -
  have "fst (get_assessment_student_grades env assessment_id course assesment_type (w, tr)) =
     Inr (PDict [(''status'', PStr ''success''), (''data'',
       PList (map (\<lambda>grade. PDict (dict_del grade ''_id'')) grades @
               map (\<lambda>entry. PDict (placeholder_dict assessment_id course entry))
                 (filter (\<lambda>entry. student_id_of entry \<notin> set (map student_id_of grades)) roster)))])"
    using assms by (rule student_grades_merge)
  then have run: "fst (get_assessment_student_grades env assessment_id course assesment_type (w, tr)) =
       Inr (PDict [(''status'', PStr ''success''),
                   (''data'', PList (map PDict (expected_grades assessment_id course roster grades)))])"
    by (simp add: expected_grades_def dict_del_def comp_def)
  have keys: "\<And>entry. entry \<in> set roster \<Longrightarrow> distinct (dict_keys entry)"
    using assms(4) by (simp add: list_all_iff roster_ok_def)
  have fields: "\<forall>entry \<in> set roster. \<forall>k.
          map_of (placeholder_dict assessment_id course entry) k =
            (if k = ''marks'' \<or> k = ''status'' then Some PNone
             else case map_of entry k of
                    Some v \<Rightarrow> Some v
                  | None \<Rightarrow> if k = ''assessment_id'' then Some assessment_id
                             else if k = ''course_id'' then Some course else None)"
    using keys by (simp add: placeholder_fields)
  have one: "distinct (map student_id_of grades)
          \<and> set (map student_id_of grades) \<subseteq> set (map student_id_of roster) \<longrightarrow>
          length (expected_grades assessment_id course roster grades) = length roster
          \<and> distinct (map student_id_of (expected_grades assessment_id course roster grades))
          \<and> set (map student_id_of (expected_grades assessment_id course roster grades)) =
              set (map student_id_of roster)"
    using expected_grades_one_per_student [OF assms(4,5)] by blast
  from run fields one show ?thesis
    by (simp only: expected_grades_def simp_thms)
qed

theorem student_grades_one_entry_per_student_witness:
  "example_env (CourseInit (PStr ''math'')) example_store = (Inr PNone, example_store)
   \<and> example_env (GetQuestionLibraryCollection (PStr ''math'')) example_store
       = (Inr (PStr ''math''), example_store)
   \<and> example_env (GetCourseStudents (PStr ''math'')) example_store =
       (Inr (PList (map PDict math_roster)), example_store)
   \<and> list_all roster_ok math_roster \<and> distinct (map student_id_of math_roster)
   \<and> example_env (Find (PStr (py_str (PStr ''math'') @ ''_'' @ ''quiz'' @ ''_db''))
         [(''assessment_id'', PStr example_id), (''course_id'', PStr ''math'')]) example_store
       = (Inr (PList (map PDict quiz_grades)), example_store)
   \<and> quiz_grades \<noteq> [] \<and> list_all grade_ok quiz_grades
   \<and> distinct (map student_id_of quiz_grades)
   \<and> set (map student_id_of quiz_grades) \<subseteq> set (map student_id_of math_roster)
   \<and> fst (get_assessment_student_grades example_env (PStr example_id) (PStr ''math'') ''quiz''
          (example_store, [])) =
       Inr (PDict [(''status'', PStr ''success''), (''data'', PList
         [PDict [(''assessment_id'', PStr example_id), (''course_id'', PStr ''math''),
                 (''student_id'', PStr ''s1''), (''marks'', PInt 7), (''status'', PStr ''graded'')],
          PDict [(''assessment_id'', PStr example_id), (''course_id'', PStr ''math''),
                 (''student_id'', PStr ''s2''), (''marks'', PInt 9), (''status'', PStr ''graded'')],
          PDict [(''assessment_id'', PStr example_id), (''course_id'', PStr ''math''),
                 (''student_id'', PStr ''s3''), (''name'', PStr ''Cy''),
                 (''marks'', PNone), (''status'', PNone)]])])
   \<and> length (expected_grades (PStr example_id) (PStr ''math'') math_roster quiz_grades) = 3
   \<and> map student_id_of (expected_grades (PStr example_id) (PStr ''math'') math_roster quiz_grades) =
       [Some (PStr ''s1''), Some (PStr ''s2''), Some (PStr ''s3'')]"
proof -
  have h1: "example_env (CourseInit (PStr ''math'')) example_store = (Inr PNone, example_store)"
    by (simp add: example_env_def)
  have h2: "example_env (GetQuestionLibraryCollection (PStr ''math'')) example_store
       = (Inr (PStr ''math''), example_store)"
    by (simp add: example_env_def example_library_def)
  have h3: "example_env (GetCourseStudents (PStr ''math'')) example_store =
       (Inr (PList (map PDict math_roster)), example_store)"
    by (simp add: example_env_def example_roster_def math_roster_def)
  have h4: "list_all roster_ok math_roster" by (rule math_roster_ok)
  have h5: "distinct (map student_id_of math_roster)" by (simp add: math_roster_ok)
  have h6: "example_env (Find (PStr (py_str (PStr ''math'') @ ''_'' @ ''quiz'' @ ''_db''))
         [(''assessment_id'', PStr example_id), (''course_id'', PStr ''math'')]) example_store
       = (Inr (PList (map PDict quiz_grades)), example_store)"
    unfolding example_env_def by (rule find_quiz_grades)
  have h7: "quiz_grades \<noteq> []" by (rule quiz_grades_ok)
  have h8: "list_all grade_ok quiz_grades" by (rule quiz_grades_ok)
  have h9: "distinct (map student_id_of quiz_grades)" by (simp add: quiz_grades_ok)
  have h10: "set (map student_id_of quiz_grades) \<subseteq> set (map student_id_of math_roster)"
    by (simp add: quiz_grades_ok math_roster_ok)
  have e: "expected_grades (PStr example_id) (PStr ''math'') math_roster quiz_grades =
         [[(''assessment_id'', PStr example_id), (''course_id'', PStr ''math''),
           (''student_id'', PStr ''s1''), (''marks'', PInt 7), (''status'', PStr ''graded'')],
          [(''assessment_id'', PStr example_id), (''course_id'', PStr ''math''),
           (''student_id'', PStr ''s2''), (''marks'', PInt 9), (''status'', PStr ''graded'')],
          [(''assessment_id'', PStr example_id), (''course_id'', PStr ''math''),
           (''student_id'', PStr ''s3''), (''name'', PStr ''Cy''),
           (''marks'', PNone), (''status'', PNone)]]"
    by (simp add: expected_grades_def quiz_grades_ok math_roster_ok)
       (simp add: quiz_grades_def math_roster_def student_id_of_def placeholder_dict_def)
  note inst = student_grades_one_entry_per_student [of example_env "PStr ''math''" example_store
      PNone example_store "PStr ''math''" example_store math_roster example_store "''quiz''"
      "PStr example_id" quiz_grades example_store "[]", OF h1 h2 h3 h4 h5 h6 h7 h8]
  have run: "fst (get_assessment_student_grades example_env (PStr example_id) (PStr ''math'') ''quiz''
          (example_store, [])) =
       Inr (PDict [(''status'', PStr ''success''), (''data'', PList (map PDict
         (expected_grades (PStr example_id) (PStr ''math'') math_roster quiz_grades)))])"
    using inst by (rule conjunct1)
  have one: "length (expected_grades (PStr example_id) (PStr ''math'') math_roster quiz_grades) =
        length math_roster
      \<and> distinct (map student_id_of
          (expected_grades (PStr example_id) (PStr ''math'') math_roster quiz_grades))"
    using inst h9 h10 by blast
  have ids: "map student_id_of (expected_grades (PStr example_id) (PStr ''math'') math_roster quiz_grades) =
       [Some (PStr ''s1''), Some (PStr ''s2''), Some (PStr ''s3'')]"
    unfolding e by (simp add: student_id_of_def)
  have len: "length (expected_grades (PStr example_id) (PStr ''math'') math_roster quiz_grades) = 3"
    using one by (simp add: math_roster_def)
  from run have "fst (get_assessment_student_grades example_env (PStr example_id) (PStr ''math'') ''quiz''
          (example_store, [])) =
       Inr (PDict [(''status'', PStr ''success''), (''data'', PList
         [PDict [(''assessment_id'', PStr example_id), (''course_id'', PStr ''math''),
                 (''student_id'', PStr ''s1''), (''marks'', PInt 7), (''status'', PStr ''graded'')],
          PDict [(''assessment_id'', PStr example_id), (''course_id'', PStr ''math''),
                 (''student_id'', PStr ''s2''), (''marks'', PInt 9), (''status'', PStr ''graded'')],
          PDict [(''assessment_id'', PStr example_id), (''course_id'', PStr ''math''),
                 (''student_id'', PStr ''s3''), (''name'', PStr ''Cy''),
                 (''marks'', PNone), (''status'', PNone)]])])"
    unfolding e by simp
  with h1 h2 h3 h4 h5 h6 h7 h8 h9 h10 len ids show ?thesis by blast
qed

text \<open>
  C1 as stated fails.  The handler returns every stored record, also the record of a
  student who is not on the roster: with a roster of one student the data list has two
  entries, the second for a student outside the roster (first run).  Two stored records
  of student \<^verbatim>\<open>s1\<close> give two entries for \<^verbatim>\<open>s1\<close> and four entries for a roster of three
  (second run).  A roster that lists \<^verbatim>\<open>s3\<close> twice gives one placeholder for its two
  entries, and two entries for a roster of three (third run).  A roster entry without
  \<^verbatim>\<open>student_id\<close> or with a list as \<^verbatim>\<open>student_id\<close>, and a stored record without \<^verbatim>\<open>_id\<close>,
  without \<^verbatim>\<open>student_id\<close> or with a list as \<^verbatim>\<open>student_id\<close>, give the 500 of the handler
  (the last five runs).
\<close>

theorem student_grades_outside_roster:
  "fst (get_assessment_student_grades (store_env example_library short_roster)
          (PStr example_id) (PStr ''math'') ''quiz'' (example_store, [])) =
     Inr (PDict [(''status'', PStr ''success''), (''data'', PList
       [PDict [(''assessment_id'', PStr example_id), (''course_id'', PStr ''math''),
               (''student_id'', PStr ''s1''), (''marks'', PInt 7), (''status'', PStr ''graded'')],
        PDict [(''assessment_id'', PStr example_id), (''course_id'', PStr ''math''),
               (''student_id'', PStr ''s2''), (''marks'', PInt 9), (''status'', PStr ''graded'')]])])
   \<and> fst (get_assessment_student_grades example_env
          (PStr example_id) (PStr ''math'') ''quiz'' (regraded_store, [])) =
     Inr (PDict [(''status'', PStr ''success''), (''data'', PList
       [PDict [(''assessment_id'', PStr example_id), (''course_id'', PStr ''math''),
               (''student_id'', PStr ''s1''), (''marks'', PInt 7), (''status'', PStr ''graded'')],
        PDict [(''assessment_id'', PStr example_id), (''course_id'', PStr ''math''),
               (''student_id'', PStr ''s1''), (''marks'', PInt 8), (''status'', PStr ''graded'')],
        PDict [(''assessment_id'', PStr example_id), (''course_id'', PStr ''math''),
               (''student_id'', PStr ''s2''), (''name'', PStr ''Bob''),
               (''marks'', PNone), (''status'', PNone)],
        PDict [(''assessment_id'', PStr example_id), (''course_id'', PStr ''math''),
               (''student_id'', PStr ''s3''), (''name'', PStr ''Cy''),
               (''marks'', PNone), (''status'', PNone)]])])
   \<and> fst (get_assessment_student_grades (store_env example_library double_roster)
          (PStr ''other'') (PStr ''math'') ''quiz'' (example_store, [])) =
     Inr (PDict [(''status'', PStr ''success''), (''data'', PList
       [PDict [(''assessment_id'', PStr ''other''), (''course_id'', PStr ''math''),
               (''student_id'', PStr ''s1''), (''marks'', PInt 3), (''status'', PStr ''graded'')],
        PDict [(''assessment_id'', PStr ''other''), (''course_id'', PStr ''math''),
               (''student_id'', PStr ''s3''), (''name'', PStr ''Cyril''),
               (''marks'', PNone), (''status'', PNone)]])])
   \<and> fst (get_assessment_student_grades (store_env example_library anonymous_roster)
          (PStr example_id) (PStr ''math'') ''quiz'' (example_store, [])) =
     Inl (HTTPException 500 ''Failed to fetch student grades'')
   \<and> fst (get_assessment_student_grades (store_env example_library listed_roster)
          (PStr example_id) (PStr ''math'') ''quiz'' (example_store, [])) =
     Inl (HTTPException 500 ''Failed to fetch student grades'')
   \<and> fst (get_assessment_student_grades example_env
          (PStr example_id) (PStr ''math'') ''quiz'' (unkeyed_store, [])) =
     Inl (HTTPException 500 ''Failed to fetch student grades'')
   \<and> fst (get_assessment_student_grades example_env
          (PStr example_id) (PStr ''math'') ''quiz'' (unsigned_store, [])) =
     Inl (HTTPException 500 ''Failed to fetch student grades'')
   \<and> fst (get_assessment_student_grades example_env
          (PStr example_id) (PStr ''math'') ''quiz'' (listed_store, [])) =
     Inl (HTTPException 500 ''Failed to fetch student grades'')"
proof -
  have "fst (get_assessment_student_grades (store_env example_library short_roster)
          (PStr example_id) (PStr ''math'') ''quiz'' (example_store, [])) =
     Inr (PDict [(''status'', PStr ''success''), (''data'', PList
       [PDict [(''assessment_id'', PStr example_id), (''course_id'', PStr ''math''),
               (''student_id'', PStr ''s1''), (''marks'', PInt 7), (''status'', PStr ''graded'')],
        PDict [(''assessment_id'', PStr example_id), (''course_id'', PStr ''math''),
               (''student_id'', PStr ''s2''), (''marks'', PInt 9), (''status'', PStr ''graded'')]])])"
    by (simp add: run_grades short_roster_def)
  moreover have "fst (get_assessment_student_grades example_env
          (PStr example_id) (PStr ''math'') ''quiz'' (regraded_store, [])) =
     Inr (PDict [(''status'', PStr ''success''), (''data'', PList
       [PDict [(''assessment_id'', PStr example_id), (''course_id'', PStr ''math''),
               (''student_id'', PStr ''s1''), (''marks'', PInt 7), (''status'', PStr ''graded'')],
        PDict [(''assessment_id'', PStr example_id), (''course_id'', PStr ''math''),
               (''student_id'', PStr ''s1''), (''marks'', PInt 8), (''status'', PStr ''graded'')],
        PDict [(''assessment_id'', PStr example_id), (''course_id'', PStr ''math''),
               (''student_id'', PStr ''s2''), (''name'', PStr ''Bob''),
               (''marks'', PNone), (''status'', PNone)],
        PDict [(''assessment_id'', PStr example_id), (''course_id'', PStr ''math''),
               (''student_id'', PStr ''s3''), (''name'', PStr ''Cy''),
               (''marks'', PNone), (''status'', PNone)]])])"
    by (simp add: run_grades regraded_store_def example_roster_def)
  moreover have "fst (get_assessment_student_grades (store_env example_library double_roster)
          (PStr ''other'') (PStr ''math'') ''quiz'' (example_store, [])) =
     Inr (PDict [(''status'', PStr ''success''), (''data'', PList
       [PDict [(''assessment_id'', PStr ''other''), (''course_id'', PStr ''math''),
               (''student_id'', PStr ''s1''), (''marks'', PInt 3), (''status'', PStr ''graded'')],
        PDict [(''assessment_id'', PStr ''other''), (''course_id'', PStr ''math''),
               (''student_id'', PStr ''s3''), (''name'', PStr ''Cyril''),
               (''marks'', PNone), (''status'', PNone)]])])"
    by (simp add: run_grades double_roster_def)
  moreover have "fst (get_assessment_student_grades (store_env example_library anonymous_roster)
          (PStr example_id) (PStr ''math'') ''quiz'' (example_store, [])) =
     Inl (HTTPException 500 ''Failed to fetch student grades'')"
    by (simp add: run_grades anonymous_roster_def)
  moreover have "fst (get_assessment_student_grades (store_env example_library listed_roster)
          (PStr example_id) (PStr ''math'') ''quiz'' (example_store, [])) =
     Inl (HTTPException 500 ''Failed to fetch student grades'')"
    by (simp add: run_grades listed_roster_def)
  moreover have "fst (get_assessment_student_grades example_env
          (PStr example_id) (PStr ''math'') ''quiz'' (unkeyed_store, [])) =
     Inl (HTTPException 500 ''Failed to fetch student grades'')"
    by (simp add: run_grades unkeyed_store_def example_roster_def)
  moreover have "fst (get_assessment_student_grades example_env
          (PStr example_id) (PStr ''math'') ''quiz'' (unsigned_store, [])) =
     Inl (HTTPException 500 ''Failed to fetch student grades'')"
    by (simp add: run_grades unsigned_store_def example_roster_def)
  moreover have "fst (get_assessment_student_grades example_env
          (PStr example_id) (PStr ''math'') ''quiz'' (listed_store, [])) =
     Inl (HTTPException 500 ''Failed to fetch student grades'')"
    by (simp add: run_grades listed_store_def example_roster_def)
  ultimately show ?thesis by blast
qed

end
